theory Spec2Isabelle
  imports Complex_Main "HOL-Library.Word" "HOL-Library.AList" "HOL-Library.Log_Nat"
begin

section \<open>Double precision arithmetic\<close>

text \<open>
  The geometry code computes with \<^verbatim>\<open>double\<close>. A \<^verbatim>\<open>double\<close> is modelled by the
  \<^typ>\<open>real\<close> it stands for, and every arithmetic operation of the source rounds its
  exact result to binary64: to the nearest multiple of the quantum of the result, which
  is 52 binary places below its leading bit and never below the exponent -1074 (gradual
  underflow), ties to the even multiple. A result beyond \<^verbatim>\<open>DBL_MAX\<close> is rounded the
  same way: infinities and NaN are outside the model. Comparisons, \<^verbatim>\<open>std::max\<close>,
  \<^verbatim>\<open>std::min\<close> and unary minus are exact.
\<close>

definition pow2 :: "int \<Rightarrow> real" where
  "pow2 e = (if 0 \<le> e then 2 ^ nat e else 1 / 2 ^ nat (- e))"

text \<open>The exponent of the leading bit of a positive number.\<close>

definition binade :: "real \<Rightarrow> int" where
  "binade a = (if 1 \<le> a then bitlen \<lfloor>a\<rfloor> - 1 else - bitlen (\<lceil>1 / a\<rceil> - 1))"

definition round_even :: "real \<Rightarrow> int" where
  "round_even t =
     (let n = \<lfloor>t\<rfloor>; r = t - of_int n
      in if r < 1 / 2 then n else if 1 / 2 < r then n + 1 else if even n then n else n + 1)"

definition quantum :: "real \<Rightarrow> real" where
  "quantum a = pow2 (max (binade a) (- 1022) - 52)"

text \<open>Rounding to \<^verbatim>\<open>double\<close>, and the four operations on \<^verbatim>\<open>double\<close>.\<close>

definition fl :: "real \<Rightarrow> real" where
  "fl x = (if x = 0 then 0
           else sgn x * (of_int (round_even (\<bar>x\<bar> / quantum \<bar>x\<bar>)) * quantum \<bar>x\<bar>))"

definition fadd :: "real \<Rightarrow> real \<Rightarrow> real" where
  "fadd a b = fl (a + b)"

definition fsub :: "real \<Rightarrow> real \<Rightarrow> real" where
  "fsub a b = fl (a - b)"

definition fmul :: "real \<Rightarrow> real \<Rightarrow> real" where
  "fmul a b = fl (a * b)"

definition fdiv :: "real \<Rightarrow> real \<Rightarrow> real" where
  "fdiv a b = fl (a / b)"

section \<open>Vectors and points\<close>

text \<open>
  \<^verbatim>\<open>ROOT::Math::XYZVector\<close> and \<^verbatim>\<open>ROOT::Math::XYZPoint\<close> are both triples of
  \<^verbatim>\<open>double\<close> coordinates; \<^verbatim>\<open>XYVector\<close> is a pair; the pixel count is a pair of
  32-bit \<^verbatim>\<open>int\<close>.
\<close>

datatype XYZVector = XYZVector (xyz_x: real) (xyz_y: real) (xyz_z: real)

type_synonym XYZPoint = XYZVector

datatype XYVector = XYVector (xy_x: real) (xy_y: real)

datatype XYIntVector = XYIntVector (xyi_x: "32 word") (xyi_y: "32 word")

text \<open>
  \<^verbatim>\<open>operator+\<close>, \<^verbatim>\<open>operator-\<close> and division by a scalar, componentwise in
  \<^verbatim>\<open>double\<close>.
\<close>

definition xyz_add :: "XYZVector \<Rightarrow> XYZVector \<Rightarrow> XYZVector" where
  "xyz_add a b =
     XYZVector (fadd (xyz_x a) (xyz_x b)) (fadd (xyz_y a) (xyz_y b)) (fadd (xyz_z a) (xyz_z b))"

definition xyz_sub :: "XYZVector \<Rightarrow> XYZVector \<Rightarrow> XYZVector" where
  "xyz_sub a b =
     XYZVector (fsub (xyz_x a) (xyz_x b)) (fsub (xyz_y a) (xyz_y b)) (fsub (xyz_z a) (xyz_z b))"

definition xyz_div :: "XYZVector \<Rightarrow> real \<Rightarrow> XYZVector" where
  "xyz_div a c = XYZVector (fdiv (xyz_x a) c) (fdiv (xyz_y a) c) (fdiv (xyz_z a) c)"

definition SetX :: "real \<Rightarrow> XYZVector \<Rightarrow> XYZVector" where
  "SetX v a = XYZVector v (xyz_y a) (xyz_z a)"

definition SetY :: "real \<Rightarrow> XYZVector \<Rightarrow> XYZVector" where
  "SetY v a = XYZVector (xyz_x a) v (xyz_z a)"

definition SetZ :: "real \<Rightarrow> XYZVector \<Rightarrow> XYZVector" where
  "SetZ v a = XYZVector (xyz_x a) (xyz_y a) v"

text \<open>The three axes, to state a property of every coordinate at once.\<close>

datatype axis = AxisX | AxisY | AxisZ

fun coord :: "axis \<Rightarrow> XYZVector \<Rightarrow> real" where
  "coord AxisX v = xyz_x v"
| "coord AxisY v = xyz_y v"
| "coord AxisZ v = xyz_z v"

text \<open>\<^verbatim>\<open>std::numeric_limits<double>::max()\<close> and \<^verbatim>\<open>lowest()\<close>.\<close>

definition DBL_MAX :: real where
  "DBL_MAX = (2 - 1 / 2 ^ 52) * 2 ^ 1023"

definition DBL_LOWEST :: real where
  "DBL_LOWEST = - DBL_MAX"

section \<open>Configuration sections\<close>

text \<open>
  A \<^verbatim>\<open>Configuration\<close> is a section name and a \<^verbatim>\<open>std::map\<close> from keys to the
  literal text of their values. The map is an association list with one entry per key.
\<close>

record Configuration =
  cfg_name :: string
  cfg_path :: string
  cfg_map :: "(string \<times> string) list"

text \<open>A \<^verbatim>\<open>ConfigReader\<close> holds the sections in the order they were added.\<close>

type_synonym ConfigReader = "Configuration list"

section \<open>The detector model\<close>

text \<open>
  \<^verbatim>\<open>SupportLayer\<close>: \<open>layer_center\<close> is \<^verbatim>\<open>center_\<close> and so on. The constructor
  leaves \<^verbatim>\<open>center_\<close> default-initialised, the origin.
\<close>

record SupportLayer =
  layer_center :: XYZPoint
  layer_size :: XYZVector
  layer_material :: string
  layer_hole_size :: XYZVector
  layer_offset :: XYZVector
  layer_hole_offset :: XYVector
  layer_location :: string

definition SupportLayer_ctor ::
  "XYZVector \<Rightarrow> XYZVector \<Rightarrow> string \<Rightarrow> string \<Rightarrow> XYZVector \<Rightarrow> XYVector \<Rightarrow> SupportLayer" where
  "SupportLayer_ctor sz offset material location hole_size hole_offset =
     \<lparr> layer_center = XYZVector 0 0 0, layer_size = sz, layer_material = material,
       layer_hole_size = hole_size, layer_offset = offset, layer_hole_offset = hole_offset,
       layer_location = location \<rparr>"

definition getHoleSize :: "SupportLayer \<Rightarrow> XYZVector" where
  "getHoleSize l = layer_hole_size l"

definition getHoleCenter :: "SupportLayer \<Rightarrow> XYZPoint" where
  "getHoleCenter l =
     xyz_add (layer_center l) (XYZVector (xy_x (layer_hole_offset l)) (xy_y (layer_hole_offset l)) 0)"

definition hasHole :: "SupportLayer \<Rightarrow> bool" where
  "hasHole l \<longleftrightarrow>
     xyz_x (layer_hole_size l) > fl (1 / 10 ^ 9) \<and> xyz_y (layer_hole_size l) > fl (1 / 10 ^ 9)"

text \<open>
  \<^verbatim>\<open>std::array<double, 4> sensor_excess_\<close>: index 0 is the top, 1 the right,
  2 the bottom and 3 the left excess.
\<close>

datatype array4 = Array4 (at0: real) (at1: real) (at2: real) (at3: real)

text \<open>The fields of \<^verbatim>\<open>DetectorModel\<close>; \<open>model_type\<close> is \<^verbatim>\<open>type_\<close>.\<close>

record DetectorModel =
  model_type :: string
  number_of_pixels :: XYIntVector
  pixel_size :: XYVector
  sensor_thickness :: real
  sensor_excess :: array4
  chip_thickness :: real
  support_layers :: "SupportLayer list"
  reader :: ConfigReader

definition getNPixels :: "DetectorModel \<Rightarrow> XYIntVector" where
  "getNPixels m = number_of_pixels m"

definition getPixelSize :: "DetectorModel \<Rightarrow> XYVector" where
  "getPixelSize m = pixel_size m"

text \<open>The \<^verbatim>\<open>int\<close> pixel count is converted to \<^verbatim>\<open>double\<close> before the product.\<close>

definition getGridSize :: "DetectorModel \<Rightarrow> XYZVector" where
  "getGridSize m =
     XYZVector (fmul (real_of_int (sint (xyi_x (getNPixels m)))) (xy_x (getPixelSize m)))
               (fmul (real_of_int (sint (xyi_y (getNPixels m)))) (xy_y (getPixelSize m))) 0"

definition getCenter :: "DetectorModel \<Rightarrow> XYZPoint" where
  "getCenter m =
     XYZVector (fsub (fdiv (xyz_x (getGridSize m)) 2) (fdiv (xy_x (getPixelSize m)) 2))
               (fsub (fdiv (xyz_y (getGridSize m)) 2) (fdiv (xy_y (getPixelSize m)) 2)) 0"

definition getSensorSize :: "DetectorModel \<Rightarrow> XYZVector" where
  "getSensorSize m =
     (let excess_thickness =
            XYZVector (fadd (at1 (sensor_excess m)) (at3 (sensor_excess m)))
                      (fadd (at0 (sensor_excess m)) (at2 (sensor_excess m))) (sensor_thickness m)
      in xyz_add (getGridSize m) excess_thickness)"

definition getSensorCenter :: "DetectorModel \<Rightarrow> XYZPoint" where
  "getSensorCenter m =
     (let offset =
            XYZVector (fdiv (fsub (at1 (sensor_excess m)) (at3 (sensor_excess m))) 2)
                      (fdiv (fsub (at0 (sensor_excess m)) (at2 (sensor_excess m))) 2) 0
      in xyz_add (getCenter m) offset)"

definition getChipSize :: "DetectorModel \<Rightarrow> XYZVector" where
  "getChipSize m =
     (let excess_thickness =
            XYZVector (fadd (at1 (sensor_excess m)) (at3 (sensor_excess m)))
                      (fadd (at0 (sensor_excess m)) (at2 (sensor_excess m))) (chip_thickness m)
      in xyz_add (getGridSize m) excess_thickness)"

definition getChipCenter :: "DetectorModel \<Rightarrow> XYZPoint" where
  "getChipCenter m =
     (let offset =
            XYZVector (fdiv (fsub (at1 (sensor_excess m)) (at3 (sensor_excess m))) 2)
                      (fdiv (fsub (at0 (sensor_excess m)) (at2 (sensor_excess m))) 2)
                      (fadd (fdiv (xyz_z (getSensorSize m)) 2) (fdiv (xyz_z (getChipSize m)) 2))
      in xyz_add (getCenter m) offset)"

text \<open>
  The loop of \<^verbatim>\<open>getSupportLayers\<close> over the copied layers, with its two running
  offsets \<open>sensor_offset\<close> and \<open>chip_offset\<close> passed along; \<open>c\<close> is \<^verbatim>\<open>getCenter()\<close>.
\<close>

fun stack_layers :: "XYZPoint \<Rightarrow> real \<Rightarrow> real \<Rightarrow> SupportLayer list \<Rightarrow> SupportLayer list" where
  "stack_layers c sensor_offset chip_offset [] = []"
| "stack_layers c sensor_offset chip_offset (layer # layers) =
     (if layer_location layer = ''sensor'' then
        layer\<lparr>layer_center :=
                 xyz_add c (SetZ (fsub sensor_offset (fdiv (xyz_z (layer_size layer)) 2))
                              (layer_offset layer))\<rparr>
        # stack_layers c (fsub sensor_offset (xyz_z (layer_size layer))) chip_offset layers
      else if layer_location layer = ''chip'' then
        layer\<lparr>layer_center :=
                 xyz_add c (SetZ (fadd chip_offset (fdiv (xyz_z (layer_size layer)) 2))
                              (layer_offset layer))\<rparr>
        # stack_layers c sensor_offset (fadd chip_offset (xyz_z (layer_size layer))) layers
      else
        layer\<lparr>layer_center := xyz_add c (layer_offset layer)\<rparr>
        # stack_layers c sensor_offset chip_offset layers)"

definition getSupportLayers :: "DetectorModel \<Rightarrow> SupportLayer list" where
  "getSupportLayers m =
     stack_layers (getCenter m) (fdiv (- xyz_z (getSensorSize m)) 2)
       (fadd (fdiv (xyz_z (getSensorSize m)) 2) (xyz_z (getChipSize m))) (support_layers m)"

text \<open>
  One round of either loop of \<^verbatim>\<open>getSize\<close>: the running \<open>(max, min)\<close> pair is
  extended by a part with the given center and size.
\<close>

definition extend_box :: "XYZPoint \<times> XYZVector \<Rightarrow> XYZVector \<times> XYZVector \<Rightarrow> XYZVector \<times> XYZVector" where
  "extend_box part box =
     (case part of (center, sz) \<Rightarrow> case box of (mx, mn) \<Rightarrow>
        (XYZVector (max (xyz_x mx) (xyz_x (xyz_add center (xyz_div sz 2))))
                   (max (xyz_y mx) (xyz_y (xyz_add center (xyz_div sz 2))))
                   (max (xyz_z mx) (xyz_z (xyz_add center (xyz_div sz 2)))),
         XYZVector (min (xyz_x mn) (xyz_x (xyz_sub center (xyz_div sz 2))))
                   (min (xyz_y mn) (xyz_y (xyz_sub center (xyz_div sz 2))))
                   (min (xyz_z mn) (xyz_z (xyz_sub center (xyz_div sz 2))))))"

definition getSize :: "DetectorModel \<Rightarrow> XYZVector" where
  "getSize m =
     (let box0 = (XYZVector DBL_LOWEST DBL_LOWEST DBL_LOWEST, XYZVector DBL_MAX DBL_MAX DBL_MAX);
          box1 = fold extend_box [(getSensorCenter m, getSensorSize m), (getChipCenter m, getChipSize m)] box0;
          box2 = fold extend_box (map (\<lambda>l. (layer_center l, layer_size l)) (getSupportLayers m)) box1
      in case box2 of (mx, mn) \<Rightarrow>
           XYZVector
             (fmul 2 (max (fsub (xyz_x mx) (xyz_x (getCenter m))) (fsub (xyz_x (getCenter m)) (xyz_x mn))))
             (fmul 2 (max (fsub (xyz_y mx) (xyz_y (getCenter m))) (fsub (xyz_y (getCenter m)) (xyz_y mn))))
             (fmul 2 (max (fsub (xyz_z mx) (xyz_z (getCenter m))) (fsub (xyz_z (getCenter m)) (xyz_z mn)))))"

definition addSupportLayer ::
  "XYVector \<Rightarrow> real \<Rightarrow> XYZVector \<Rightarrow> string \<Rightarrow> string \<Rightarrow> XYVector \<Rightarrow> XYVector \<Rightarrow> DetectorModel \<Rightarrow> DetectorModel" where
  "addSupportLayer sz thickness offset material location hole_size hole_offset m =
     (let full_size = XYZVector (xy_x sz) (xy_y sz) thickness;
          full_hole_size = XYZVector (xy_x hole_size) (xy_y hole_size) thickness
      in m\<lparr>support_layers :=
             support_layers m @ [SupportLayer_ctor full_size offset material location full_hole_size hole_offset]\<rparr>)"

text \<open>The parts \<^verbatim>\<open>getSize\<close> covers, each with its center and its size.\<close>

definition model_parts :: "DetectorModel \<Rightarrow> (XYZPoint \<times> XYZVector) list" where
  "model_parts m =
     [(getSensorCenter m, getSensorSize m), (getChipCenter m, getChipSize m)]
     @ map (\<lambda>l. (layer_center l, layer_size l)) (getSupportLayers m)"

section \<open>Errors\<close>

text \<open>
  The exceptions of the geometry code, as values. \<open>InvalidPointer\<close> stands for a
  dereferenced null or dangling pointer, where the source has undefined behaviour.
\<close>

datatype error =
    ModuleError string
  | InvalidModuleActionException string
  | DetectorModelExistsError string
  | DetectorInvalidNameError string
  | DetectorExistsError string
  | InvalidDetectorError string
  | InvalidModelError string
  | MissingKeyError string
  | InvalidKeyError string
  | InvalidValueError string
  | InvalidPointer

definition bindE :: "error + 'a \<Rightarrow> ('a \<Rightarrow> error + 'b) \<Rightarrow> error + 'b" where
  "bindE r f = (case r of Inl e \<Rightarrow> Inl e | Inr v \<Rightarrow> f v)"

section \<open>Operations on configurations\<close>

text \<open>
  Modelled from the spec: the bodies of the members of \<^verbatim>\<open>Configuration\<close>
  (\<^verbatim>\<open>Configuration.cpp\<close>, \<^verbatim>\<open>Configuration.tpp\<close>) are not under src/; each follows its
  declaration and documentation in \<^verbatim>\<open>Configuration.hpp\<close>. The constructor makes a
  section with no keys.
\<close>

definition Configuration_ctor :: "string \<Rightarrow> string \<Rightarrow> Configuration" where
  "Configuration_ctor name path = \<lparr> cfg_name = name, cfg_path = path, cfg_map = [] \<rparr>"

text \<open>Modelled from the spec: \<^verbatim>\<open>Configuration::has\<close>, true if the key is defined.\<close>

definition has :: "string \<Rightarrow> Configuration \<Rightarrow> bool" where
  "has key c \<longleftrightarrow> map_of (cfg_map c) key \<noteq> None"

text \<open>Modelled from the spec: \<^verbatim>\<open>Configuration::setText\<close>, set the literal value of a key.\<close>

definition setText :: "string \<Rightarrow> string \<Rightarrow> Configuration \<Rightarrow> Configuration" where
  "setText key val c = c\<lparr>cfg_map := AList.update key val (cfg_map c)\<rparr>"

text \<open>Modelled from the spec: \<^verbatim>\<open>Configuration::countSettings\<close>, the number of key / value pairs.\<close>

definition countSettings :: "Configuration \<Rightarrow> nat" where
  "countSettings c = length (cfg_map c)"

text \<open>Modelled from the spec: \<^verbatim>\<open>Configuration::getName\<close>, the name of the section header.\<close>

definition getName :: "Configuration \<Rightarrow> string" where
  "getName c = cfg_name c"

text \<open>Modelled from the spec: \<^verbatim>\<open>Configuration::getAll\<close>, all key / value pairs.\<close>

definition getAll :: "Configuration \<Rightarrow> (string \<times> string) list" where
  "getAll c = cfg_map c"

text \<open>
  Modelled from the spec: \<^verbatim>\<open>Configuration::merge\<close>, which only adds the keys of the
  other configuration that are not yet defined in this one.
\<close>

definition merge :: "Configuration \<Rightarrow> Configuration \<Rightarrow> Configuration" where
  "merge other c =
     fold (\<lambda>config_pair c. if has (fst config_pair) c then c
                             else setText (fst config_pair) (snd config_pair) c)
       (cfg_map other) c"

text \<open>
  Modelled from the spec: \<^verbatim>\<open>Configuration::get<T>\<close>. The conversion of the text of
  a value to the type \<open>T\<close> (the string conversion library) is not under src/ either and
  is the parameter \<open>from_string\<close>; a missing key and a text that does not convert are
  the two errors.
\<close>

definition get :: "(string \<Rightarrow> 'a option) \<Rightarrow> string \<Rightarrow> Configuration \<Rightarrow> error + 'a" where
  "get from_string key c =
     (case map_of (cfg_map c) key of
        None \<Rightarrow> Inl (MissingKeyError key)
      | Some text \<Rightarrow>
          (case from_string text of None \<Rightarrow> Inl (InvalidKeyError key) | Some v \<Rightarrow> Inr v))"

text \<open>
  Modelled from the spec: \<^verbatim>\<open>Configuration::get<T>\<close> with a default, the default
  value if the key is not defined.
\<close>

definition get_default :: "(string \<Rightarrow> 'a option) \<Rightarrow> string \<Rightarrow> 'a \<Rightarrow> Configuration \<Rightarrow> error + 'a" where
  "get_default from_string key def c = (if has key c then get from_string key c else Inr def)"

text \<open>The conversions \<^verbatim>\<open>from_string<T>\<close> the geometry code uses, one per type \<open>T\<close>.\<close>

record StringConversions =
  double_from_string :: "string \<Rightarrow> real option"
  string_from_string :: "string \<Rightarrow> string option"
  XYVector_from_string :: "string \<Rightarrow> XYVector option"
  XYIntVector_from_string :: "string \<Rightarrow> XYIntVector option"
  XYZVector_from_string :: "string \<Rightarrow> XYZVector option"

text \<open>
  Modelled from the spec: \<^verbatim>\<open>ConfigReader\<close> is not under src/. It keeps the sections
  in the order they were added; \<^verbatim>\<open>getConfigurations(name)\<close> returns the sections of
  that name, \<^verbatim>\<open>getConfigurations()\<close> all of them.
\<close>

definition addConfiguration :: "Configuration \<Rightarrow> ConfigReader \<Rightarrow> ConfigReader" where
  "addConfiguration config rd = rd @ [config]"

text \<open>Modelled from the spec: \<^verbatim>\<open>ConfigReader::getConfigurations(name)\<close>.\<close>

definition getConfigurations_named :: "string \<Rightarrow> ConfigReader \<Rightarrow> Configuration list" where
  "getConfigurations_named name rd = filter (\<lambda>c. getName c = name) rd"

text \<open>
  Modelled from the spec: \<^verbatim>\<open>ConfigReader::getHeaderConfiguration\<close>. The header is
  the first section without a name merged with every later section without a name, so
  that the keys of an earlier section take precedence; a reader without such a
  section has an empty header.
\<close>

definition getHeaderConfiguration :: "ConfigReader \<Rightarrow> Configuration" where
  "getHeaderConfiguration rd =
     (case getConfigurations_named [] rd of
        [] \<Rightarrow> Configuration_ctor [] []
      | header_config # configurations \<Rightarrow> fold merge configurations header_config)"

section \<open>Construction of a detector model\<close>

text \<open>\<^verbatim>\<open>::tolower\<close> in the C locale.\<close>

definition tolower :: "char \<Rightarrow> char" where
  "tolower c =
     (let n = (of_char c :: nat) in if 65 \<le> n \<and> n \<le> 90 then char_of (n + 32) else c)"

text \<open>The body of the loop of the constructor over the \<^verbatim>\<open>support\<close> sections.\<close>

definition read_support :: "StringConversions \<Rightarrow> Configuration \<Rightarrow> DetectorModel \<Rightarrow> error + DetectorModel" where
  "read_support conv support_config m =
     bindE (get (double_from_string conv) ''thickness'' support_config) (\<lambda>thickness.
     bindE (get (XYVector_from_string conv) ''size'' support_config) (\<lambda>sz.
     bindE (get_default (string_from_string conv) ''location'' ''chip'' support_config) (\<lambda>location'.
     let location = map tolower location' in
     if location \<noteq> ''sensor'' \<and> location \<noteq> ''chip'' \<and> location \<noteq> ''absolute''
     then Inl (InvalidValueError ''location'')
     else
     bindE (if location = ''absolute''
            then get (XYZVector_from_string conv) ''offset'' support_config
            else bindE (get_default (XYVector_from_string conv) ''offset'' (XYVector 0 0) support_config)
                   (\<lambda>xy_offset. Inr (XYZVector (xy_x xy_offset) (xy_y xy_offset) 0))) (\<lambda>offset.
     bindE (get_default (string_from_string conv) ''material'' ''g10'' support_config) (\<lambda>material'.
     let material = map tolower material' in
     bindE (get_default (XYVector_from_string conv) ''hole_size'' (XYVector 0 0) support_config) (\<lambda>hole_size.
     bindE (get_default (XYVector_from_string conv) ''hole_offset'' (XYVector 0 0) support_config) (\<lambda>hole_offset.
     Inr (addSupportLayer sz thickness offset material location hole_size hole_offset m))))))))"

fun read_supports :: "StringConversions \<Rightarrow> Configuration list \<Rightarrow> DetectorModel \<Rightarrow> error + DetectorModel" where
  "read_supports conv [] m = Inr m"
| "read_supports conv (support_config # rest) m =
     bindE (read_support conv support_config m) (read_supports conv rest)"

text \<open>
  The constructor \<^verbatim>\<open>DetectorModel(type, reader)\<close>: the header parameters in the
  order they are read, then the support layers.
\<close>

definition DetectorModel_ctor :: "StringConversions \<Rightarrow> string \<Rightarrow> ConfigReader \<Rightarrow> error + DetectorModel" where
  "DetectorModel_ctor conv type rd =
     (let config = getHeaderConfiguration rd in
      bindE (get (XYIntVector_from_string conv) ''number_of_pixels'' config) (\<lambda>npixels.
      bindE (get (XYVector_from_string conv) ''pixel_size'' config) (\<lambda>psize.
      bindE (get (double_from_string conv) ''sensor_thickness'' config) (\<lambda>sthickness.
      bindE (get_default (double_from_string conv) ''sensor_excess'' 0 config) (\<lambda>default_sensor_excess.
      bindE (get_default (double_from_string conv) ''sensor_excess_top'' default_sensor_excess config) (\<lambda>top.
      bindE (get_default (double_from_string conv) ''sensor_excess_bottom'' default_sensor_excess config) (\<lambda>bottom.
      bindE (get_default (double_from_string conv) ''sensor_excess_left'' default_sensor_excess config) (\<lambda>left.
      bindE (get_default (double_from_string conv) ''sensor_excess_right'' default_sensor_excess config) (\<lambda>right.
      bindE (get_default (double_from_string conv) ''chip_thickness'' 0 config) (\<lambda>cthickness.
      read_supports conv (getConfigurations_named ''support'' rd)
        \<lparr> model_type = type, number_of_pixels = npixels, pixel_size = psize,
          sensor_thickness = sthickness, sensor_excess = Array4 top right bottom left,
          chip_thickness = cthickness, support_layers = [], reader = rd \<rparr>))))))))))"

definition getType :: "DetectorModel \<Rightarrow> string" where
  "getType m = model_type m"

text \<open>
  \<^verbatim>\<open>DetectorModel::getConfigurations\<close>: the header merged with every section
  without a name comes first, the named sections follow in their order.
\<close>

definition getConfigurations :: "DetectorModel \<Rightarrow> Configuration list" where
  "getConfigurations m =
     (let step = (\<lambda>config (global_config, configurations).
                    if getName config = [] then (merge config global_config, configurations)
                    else (global_config, configurations @ [config]));
          result = fold step (reader m) (getHeaderConfiguration (reader m), [])
      in fst result # snd result)"

section \<open>Detectors and model instances\<close>

text \<open>
  A \<^verbatim>\<open>std::shared_ptr<DetectorModel>\<close> is a model instance: the identity of the
  allocated object, the class it was constructed as and its fields. The manager never
  changes a model once it is constructed.

  Modelled from the spec: \<^verbatim>\<open>HybridPixelDetectorModel\<close> and
  \<^verbatim>\<open>MonolithicPixelDetectorModel\<close> are not under src/. An instance of either is the
  base class part the constructor \<^verbatim>\<open>DetectorModel(type, reader)\<close> builds, tagged with
  its class.
\<close>

datatype model_class = HybridPixelDetectorModel | MonolithicPixelDetectorModel

record ModelInstance =
  model_id :: nat
  model_class :: model_class
  model_obj :: DetectorModel

text \<open>
  Modelled from the spec: \<^verbatim>\<open>Detector\<close> is not under src/. A detector has a name, a
  position and an orientation in the global frame and the model it is resolved to,
  unset until the geometry is closed.
\<close>

datatype Rotation3D = Rotation3D real real real real real real real real real

record Detector =
  det_name :: string
  det_position :: XYZPoint
  det_orientation :: Rotation3D
  det_model :: "ModelInstance option"

text \<open>Modelled from the spec: the rotation of a vector by an orientation.\<close>

fun rotate :: "Rotation3D \<Rightarrow> XYZVector \<Rightarrow> XYZVector" where
  "rotate (Rotation3D xx xy xz yx yy yz zx zy zz) v =
     XYZVector (fadd (fadd (fmul xx (xyz_x v)) (fmul xy (xyz_y v))) (fmul xz (xyz_z v)))
               (fadd (fadd (fmul yx (xyz_x v)) (fmul yy (xyz_y v))) (fmul yz (xyz_z v)))
               (fadd (fadd (fmul zx (xyz_x v)) (fmul zy (xyz_y v))) (fmul zz (xyz_z v)))"

text \<open>
  Modelled from the spec: \<^verbatim>\<open>Detector::getGlobalPosition\<close> applies the orientation
  rotation, then the position translation.
\<close>

definition getGlobalPosition :: "Detector \<Rightarrow> XYZPoint \<Rightarrow> XYZPoint" where
  "getGlobalPosition d local_pos = xyz_add (rotate (det_orientation d) local_pos) (det_position d)"

text \<open>Modelled from the spec: \<^verbatim>\<open>Detector::set_model\<close>, the internal setter of the model.\<close>

definition set_model :: "ModelInstance \<Rightarrow> Detector \<Rightarrow> Detector" where
  "set_model model d = d\<lparr>det_model := Some model\<rparr>"

section \<open>The geometry manager\<close>

text \<open>
  The fields of \<^verbatim>\<open>GeometryManager\<close> (\<open>is_closed\<close> is \<^verbatim>\<open>closed_\<close>), together with
  the two parts of the heap the manager works on. The detectors live in
  \<open>detector_heap\<close>: a \<^verbatim>\<open>std::shared_ptr<Detector>\<close> of \<^verbatim>\<open>detectors_\<close> and a raw
  \<^verbatim>\<open>Detector*\<close> of \<^verbatim>\<open>nonresolved_models_\<close> are both addresses into it, so that a
  model set through one is seen through the other. \<open>next_model_id\<close> is the identity
  the next allocated model gets. \<^verbatim>\<open>nonresolved_models_\<close> is listed in the order the
  \<^verbatim>\<open>std::map\<close> is iterated. The magnetic field members play no part here and are left
  out.
\<close>

record state =
  is_closed :: bool
  models :: "ModelInstance list"
  model_names :: "string set"
  nonresolved_models :: "(string \<times> (Configuration \<times> nat) list) list"
  detectors :: "nat list"
  detector_names :: "string set"
  points :: "XYZPoint list"
  model_paths :: "string list"
  detector_heap :: "Detector list"
  next_model_id :: nat

definition GeometryManager_ctor :: state where
  "GeometryManager_ctor =
     \<lparr> is_closed = False, models = [], model_names = {}, nonresolved_models = [],
       detectors = [], detector_names = {}, points = [], model_paths = [],
       detector_heap = [], next_model_id = 0 \<rparr>"

definition deref :: "nat \<Rightarrow> state \<Rightarrow> Detector option" where
  "deref a s = (if a < length (detector_heap s) then Some (detector_heap s ! a) else None)"

text \<open>\<^verbatim>\<open>std::make_shared\<close> of a model: a new identity.\<close>

definition make_shared :: "model_class \<Rightarrow> DetectorModel \<Rightarrow> state \<Rightarrow> (error + ModelInstance) \<times> state" where
  "make_shared cls m s =
     (Inr \<lparr> model_id = next_model_id s, model_class = cls, model_obj = m \<rparr>,
      s\<lparr>next_model_id := Suc (next_model_id s)\<rparr>)"

definition getModelsPath :: "state \<Rightarrow> string list" where
  "getModelsPath s = model_paths s"

definition addPoint :: "XYZPoint \<Rightarrow> state \<Rightarrow> (error + unit) \<times> state" where
  "addPoint point s =
     (if is_closed s then (Inl (ModuleError ''Geometry is already closed before adding detector''), s)
      else (Inr (), s\<lparr>points := points s @ [point]\<rparr>))"

text \<open>The argument is \<open>None\<close> for a null pointer.\<close>

definition addModel :: "ModelInstance option \<Rightarrow> state \<Rightarrow> (error + unit) \<times> state" where
  "addModel model s =
     (if is_closed s then (Inl (ModuleError ''Geometry is already closed before adding detector''), s)
      else case model of
        None \<Rightarrow> (Inl (InvalidModuleActionException ''Added model cannot be a null pointer''), s)
      | Some mi \<Rightarrow>
          if getType (model_obj mi) \<in> model_names s
          then (Inl (DetectorModelExistsError (getType (model_obj mi))), s)
          else (Inr (), s\<lparr>model_names := insert (getType (model_obj mi)) (model_names s),
                           models := models s @ [mi]\<rparr>))"

definition needsModel :: "string \<Rightarrow> state \<Rightarrow> bool" where
  "needsModel name s \<longleftrightarrow> name \<in> set (map fst (nonresolved_models s))"

definition hasModel :: "string \<Rightarrow> state \<Rightarrow> bool" where
  "hasModel name s \<longleftrightarrow> name \<in> model_names s"

definition getModels :: "state \<Rightarrow> (error + ModelInstance list) \<times> state" where
  "getModels s = (Inr (models s), s)"

definition getModel :: "string \<Rightarrow> state \<Rightarrow> error + ModelInstance" where
  "getModel name s =
     (case find (\<lambda>model. getType (model_obj model) = name) (models s) of
        Some model \<Rightarrow> Inr model
      | None \<Rightarrow> Inl (InvalidModelError name))"

text \<open>The argument is \<open>None\<close> for a null pointer, otherwise an address.\<close>

definition addDetector :: "nat option \<Rightarrow> state \<Rightarrow> (error + unit) \<times> state" where
  "addDetector detector s =
     (if is_closed s then (Inl (ModuleError ''Geometry is already closed before adding detector''), s)
      else case detector of
        None \<Rightarrow> (Inl (InvalidModuleActionException ''Added detector cannot be a null pointer''), s)
      | Some a \<Rightarrow>
          (case deref a s of
             None \<Rightarrow> (Inl InvalidPointer, s)
           | Some d \<Rightarrow>
               if det_name d = ''global'' then (Inl (DetectorInvalidNameError (det_name d)), s)
               else if det_name d \<in> detector_names s then (Inl (DetectorExistsError (det_name d)), s)
               else (Inr (), s\<lparr>detector_names := insert (det_name d) (detector_names s),
                                detectors := detectors s @ [a]\<rparr>)))"

definition hasDetector :: "string \<Rightarrow> state \<Rightarrow> bool" where
  "hasDetector name s \<longleftrightarrow> name \<in> detector_names s"

text \<open>
  \<^verbatim>\<open>parse_config\<close>: the \<^verbatim>\<open>type\<close> of the header selects the class of the new
  model; the constructor may fail.
\<close>

definition parse_config :: "StringConversions \<Rightarrow> string \<Rightarrow> ConfigReader \<Rightarrow> state \<Rightarrow> (error + ModelInstance) \<times> state" where
  "parse_config conv name rd s =
     (let config = getHeaderConfiguration rd in
      case get (string_from_string conv) ''type'' config of
        Inl e \<Rightarrow> (Inl e, s)
      | Inr type \<Rightarrow>
          if type = ''hybrid'' then
            (case DetectorModel_ctor conv name rd of
               Inl e \<Rightarrow> (Inl e, s) | Inr m \<Rightarrow> make_shared HybridPixelDetectorModel m s)
          else if type = ''monolithic'' then
            (case DetectorModel_ctor conv name rd of
               Inl e \<Rightarrow> (Inl e, s) | Inr m \<Rightarrow> make_shared MonolithicPixelDetectorModel m s)
          else (Inl (InvalidValueError ''type''), s))"

text \<open>
  The second loop of \<^verbatim>\<open>load_models\<close>, over the readers of the model files found
  under the model paths.
\<close>

fun parse_models :: "StringConversions \<Rightarrow> (string \<times> ConfigReader) list \<Rightarrow> state \<Rightarrow> (error + unit) \<times> state" where
  "parse_models conv [] s = (Inr (), s)"
| "parse_models conv (name_reader # readers) s =
     (if hasModel (fst name_reader) s then parse_models conv readers s
      else if \<not> needsModel (fst name_reader) s then parse_models conv readers s
      else case parse_config conv (fst name_reader) (snd name_reader) s of
             (Inl e, s1) \<Rightarrow> (Inl e, s1)
           | (Inr model, s1) \<Rightarrow>
               (case addModel (Some model) s1 of
                  (Inl e, s2) \<Rightarrow> (Inl e, s2)
                | (Inr u, s2) \<Rightarrow> parse_models conv readers s2))"

text \<open>
  \<^verbatim>\<open>load_models\<close>. Its first loop reads the file system: the parameter \<open>files\<close>
  gives, for the list of model paths, the name and the reader of every model file
  found, in the order of the paths.
\<close>

definition load_models ::
  "StringConversions \<Rightarrow> (string list \<Rightarrow> (string \<times> ConfigReader) list) \<Rightarrow> state \<Rightarrow> (error + unit) \<times> state" where
  "load_models conv files s = parse_models conv (files (getModelsPath s)) s"

text \<open>
  The overlay \<^verbatim>\<open>new_config\<close> that \<^verbatim>\<open>close_geometry\<close> builds from the configuration
  of a detector.
\<close>

definition new_config :: "Configuration \<Rightarrow> Configuration" where
  "new_config config =
     fold (\<lambda>key_value cfg.
             if fst key_value = ''type'' \<or> fst key_value = ''position''
                \<or> fst key_value = ''orientation_mode'' \<or> fst key_value = ''orientation''
             then cfg else setText (fst key_value) (snd key_value) cfg)
       (getAll config) (Configuration_ctor [] [])"

text \<open>The body of the inner loop of \<^verbatim>\<open>close_geometry\<close>, for one pending detector.\<close>

definition resolve_detector ::
  "StringConversions \<Rightarrow> string \<Rightarrow> Configuration \<times> nat \<Rightarrow> state \<Rightarrow> (error + unit) \<times> state" where
  "resolve_detector conv type config_detector s =
     (case getModel type s of
        Inl e \<Rightarrow> (Inl e, s)
      | Inr model \<Rightarrow>
          (case (if countSettings (new_config (fst config_detector)) \<noteq> 0
                 then parse_config conv type
                        (fold addConfiguration (getConfigurations (model_obj model))
                           (addConfiguration (new_config (fst config_detector)) [])) s
                 else (Inr model, s)) of
             (Inl e, s1) \<Rightarrow> (Inl e, s1)
           | (Inr model', s1) \<Rightarrow>
               (case deref (snd config_detector) s1 of
                  None \<Rightarrow> (Inl InvalidPointer, s1)
                | Some d \<Rightarrow>
                    (Inr (), s1\<lparr>detector_heap :=
                                  (detector_heap s1)[snd config_detector := set_model model' d]\<rparr>))))"

fun resolve_detectors ::
  "StringConversions \<Rightarrow> string \<Rightarrow> (Configuration \<times> nat) list \<Rightarrow> state \<Rightarrow> (error + unit) \<times> state" where
  "resolve_detectors conv type [] s = (Inr (), s)"
| "resolve_detectors conv type (config_detector # rest) s =
     (case resolve_detector conv type config_detector s of
        (Inl e, s1) \<Rightarrow> (Inl e, s1)
      | (Inr u, s1) \<Rightarrow> resolve_detectors conv type rest s1)"

fun resolve_types ::
  "StringConversions \<Rightarrow> (string \<times> (Configuration \<times> nat) list) list \<Rightarrow> state \<Rightarrow> (error + unit) \<times> state" where
  "resolve_types conv [] s = (Inr (), s)"
| "resolve_types conv (detectors_types # rest) s =
     (case resolve_detectors conv (fst detectors_types) (snd detectors_types) s of
        (Inl e, s1) \<Rightarrow> (Inl e, s1)
      | (Inr u, s1) \<Rightarrow> resolve_types conv rest s1)"

definition close_geometry ::
  "StringConversions \<Rightarrow> (string list \<Rightarrow> (string \<times> ConfigReader) list) \<Rightarrow> state \<Rightarrow> (error + unit) \<times> state" where
  "close_geometry conv files s =
     (case load_models conv files s of
        (Inl e, s1) \<Rightarrow> (Inl e, s1)
      | (Inr u, s1) \<Rightarrow>
          (case resolve_types conv (nonresolved_models s1) s1 of
             (Inl e, s2) \<Rightarrow> (Inl e, s2)
           | (Inr u, s2) \<Rightarrow> (Inr (), s2\<lparr>is_closed := True\<rparr>)))"

text \<open>The guard every closing accessor starts with.\<close>

definition close_if_open ::
  "StringConversions \<Rightarrow> (string list \<Rightarrow> (string \<times> ConfigReader) list) \<Rightarrow> state \<Rightarrow> (error + unit) \<times> state" where
  "close_if_open conv files s = (if \<not> is_closed s then close_geometry conv files s else (Inr (), s))"

definition getDetectors ::
  "StringConversions \<Rightarrow> (string list \<Rightarrow> (string \<times> ConfigReader) list) \<Rightarrow> state \<Rightarrow> (error + nat list) \<times> state" where
  "getDetectors conv files s =
     (case close_if_open conv files s of
        (Inl e, s1) \<Rightarrow> (Inl e, s1)
      | (Inr u, s1) \<Rightarrow> (Inr (detectors s1), s1))"

fun find_detector :: "string \<Rightarrow> nat list \<Rightarrow> state \<Rightarrow> error + nat" where
  "find_detector name [] s = Inl (InvalidDetectorError name)"
| "find_detector name (detector # rest) s =
     (case deref detector s of
        None \<Rightarrow> Inl InvalidPointer
      | Some d \<Rightarrow> if det_name d = name then Inr detector else find_detector name rest s)"

definition getDetector ::
  "StringConversions \<Rightarrow> (string list \<Rightarrow> (string \<times> ConfigReader) list) \<Rightarrow> string \<Rightarrow> state \<Rightarrow> (error + nat) \<times> state" where
  "getDetector conv files name s =
     (case close_if_open conv files s of
        (Inl e, s1) \<Rightarrow> (Inl e, s1)
      | (Inr u, s1) \<Rightarrow> (find_detector name (detectors s1) s1, s1))"

text \<open>
  \<^verbatim>\<open>getDetectorsByType\<close>. \<^verbatim>\<open>Detector::getType\<close> is not under src/ and is the
  parameter \<open>detector_type\<close>.
\<close>

fun filter_detectors :: "(Detector \<Rightarrow> string) \<Rightarrow> string \<Rightarrow> nat list \<Rightarrow> state \<Rightarrow> error + nat list" where
  "filter_detectors detector_type type [] s = Inr []"
| "filter_detectors detector_type type (detector # rest) s =
     (case deref detector s of
        None \<Rightarrow> Inl InvalidPointer
      | Some d \<Rightarrow>
          bindE (filter_detectors detector_type type rest s)
            (\<lambda>result. Inr (if detector_type d = type then detector # result else result)))"

definition getDetectorsByType ::
  "StringConversions \<Rightarrow> (string list \<Rightarrow> (string \<times> ConfigReader) list) \<Rightarrow> (Detector \<Rightarrow> string) \<Rightarrow> string
     \<Rightarrow> state \<Rightarrow> (error + nat list) \<times> state" where
  "getDetectorsByType conv files detector_type type s =
     (case close_if_open conv files s of
        (Inl e, s1) \<Rightarrow> (Inl e, s1)
      | (Inr u, s1) \<Rightarrow>
          (case filter_detectors detector_type type (detectors s1) s1 of
             Inl e \<Rightarrow> (Inl e, s1)
           | Inr result \<Rightarrow> if result = [] then (Inl (InvalidModelError type), s1) else (Inr result, s1)))"

section \<open>The bounding box of the geometry\<close>

definition offset_x :: "int list" where
  "offset_x = [1, 1, 1, 1, - 1, - 1, - 1, - 1]"

definition offset_y :: "int list" where
  "offset_y = [1, 1, - 1, - 1, 1, 1, - 1, - 1]"

definition offset_z :: "int list" where
  "offset_z = [1, - 1, 1, - 1, 1, - 1, 1, - 1]"

text \<open>The corner with index \<open>i\<close> of the box of a model, in local coordinates.\<close>

definition box_corner :: "DetectorModel \<Rightarrow> nat \<Rightarrow> XYZPoint" where
  "box_corner model i =
     (let point = getCenter model;
          point = SetX (fadd (xyz_x point)
                          (fdiv (fmul (real_of_int (offset_x ! i)) (xyz_x (getSize model))) 2)) point;
          point = SetY (fadd (xyz_y point)
                          (fdiv (fmul (real_of_int (offset_y ! i)) (xyz_y (getSize model))) 2)) point;
          point = SetZ (fadd (xyz_z point)
                          (fdiv (fmul (real_of_int (offset_z ! i)) (xyz_z (getSize model))) 2)) point
      in point)"

definition lower_point :: "XYZPoint \<Rightarrow> XYZPoint \<Rightarrow> XYZPoint" where
  "lower_point point min_point =
     XYZVector (min (xyz_x min_point) (xyz_x point)) (min (xyz_y min_point) (xyz_y point))
               (min (xyz_z min_point) (xyz_z point))"

definition upper_point :: "XYZPoint \<Rightarrow> XYZPoint \<Rightarrow> XYZPoint" where
  "upper_point point max_point =
     XYZVector (max (xyz_x max_point) (xyz_x point)) (max (xyz_y max_point) (xyz_y point))
               (max (xyz_z max_point) (xyz_z point))"

text \<open>
  The loop over the detectors, shared by \<^verbatim>\<open>getMinimumCoordinate\<close> and
  \<^verbatim>\<open>getMaximumCoordinate\<close>, which differ in the update \<open>upd\<close> of the running point.
\<close>

fun fold_detectors ::
  "(XYZPoint \<Rightarrow> XYZPoint \<Rightarrow> XYZPoint) \<Rightarrow> nat list \<Rightarrow> state \<Rightarrow> XYZPoint \<Rightarrow> error + XYZPoint" where
  "fold_detectors upd [] s acc = Inr acc"
| "fold_detectors upd (detector # rest) s acc =
     (case deref detector s of
        None \<Rightarrow> Inl InvalidPointer
      | Some d \<Rightarrow>
          (case det_model d of
             None \<Rightarrow> Inl InvalidPointer
           | Some model \<Rightarrow>
               fold_detectors upd rest s
                 (fold (\<lambda>i acc. upd (getGlobalPosition d (box_corner (model_obj model) i)) acc)
                    [0..<8] acc)))"

definition getMinimumCoordinate ::
  "StringConversions \<Rightarrow> (string list \<Rightarrow> (string \<times> ConfigReader) list) \<Rightarrow> state \<Rightarrow> (error + XYZPoint) \<times> state" where
  "getMinimumCoordinate conv files s =
     (case close_if_open conv files s of
        (Inl e, s1) \<Rightarrow> (Inl e, s1)
      | (Inr u, s1) \<Rightarrow>
          (case fold_detectors lower_point (detectors s1) s1 (XYZVector 0 0 0) of
             Inl e \<Rightarrow> (Inl e, s1)
           | Inr min_point \<Rightarrow> (Inr (fold lower_point (points s1) min_point), s1)))"

definition getMaximumCoordinate ::
  "StringConversions \<Rightarrow> (string list \<Rightarrow> (string \<times> ConfigReader) list) \<Rightarrow> state \<Rightarrow> (error + XYZPoint) \<times> state" where
  "getMaximumCoordinate conv files s =
     (case close_if_open conv files s of
        (Inl e, s1) \<Rightarrow> (Inl e, s1)
      | (Inr u, s1) \<Rightarrow>
          (case fold_detectors upper_point (detectors s1) s1 (XYZVector 0 0 0) of
             Inl e \<Rightarrow> (Inl e, s1)
           | Inr max_point \<Rightarrow> (Inr (fold upper_point (points s1) max_point), s1)))"

section \<open>Quantities the properties are stated with\<close>

text \<open>
  The upper and the lower extent of a part along an axis, as \<^verbatim>\<open>getSize\<close> computes
  them: its center plus and minus half its size, in \<^verbatim>\<open>double\<close>.
\<close>

definition upper_extent :: "axis \<Rightarrow> XYZPoint \<times> XYZVector \<Rightarrow> real" where
  "upper_extent a part = fadd (coord a (fst part)) (fdiv (coord a (snd part)) 2)"

definition lower_extent :: "axis \<Rightarrow> XYZPoint \<times> XYZVector \<Rightarrow> real" where
  "lower_extent a part = fsub (coord a (fst part)) (fdiv (coord a (snd part)) 2)"

text \<open>
  The \<open>(max, min)\<close> pair \<^verbatim>\<open>getSize\<close> holds after its two loops, and the value it
  doubles: the larger of the two distances from the center, each a difference in
  \<^verbatim>\<open>double\<close>.
\<close>

definition model_box :: "DetectorModel \<Rightarrow> XYZVector \<times> XYZVector" where
  "model_box m =
     fold extend_box (model_parts m)
       (XYZVector DBL_LOWEST DBL_LOWEST DBL_LOWEST, XYZVector DBL_MAX DBL_MAX DBL_MAX)"

definition half_size :: "axis \<Rightarrow> DetectorModel \<Rightarrow> real" where
  "half_size a m =
     max (fsub (coord a (fst (model_box m))) (coord a (getCenter m)))
         (fsub (coord a (getCenter m)) (coord a (snd (model_box m))))"






text \<open>
  The keys of a detector section that only place the detector, and the other keys of
  a configuration, those that specialize the model.
\<close>

definition internal_keys :: "string set" where
  "internal_keys = {''type'', ''position'', ''orientation_mode'', ''orientation''}"

definition extra_keys :: "Configuration \<Rightarrow> string list" where
  "extra_keys config = filter (\<lambda>key. key \<notin> internal_keys) (map fst (cfg_map config))"

text \<open>
  The pending detectors of \<^verbatim>\<open>nonresolved_models_\<close> in the order the two nested
  loops of \<^verbatim>\<open>close_geometry\<close> visit them, each with its requested type, and the
  same loops as one loop over that list.
\<close>

definition pending :: "state \<Rightarrow> (string \<times> Configuration \<times> nat) list" where
  "pending s =
     concat (map (\<lambda>detectors_types. map (\<lambda>cd. (fst detectors_types, cd)) (snd detectors_types))
               (nonresolved_models s))"

fun resolve_pending ::
  "StringConversions \<Rightarrow> (string \<times> Configuration \<times> nat) list \<Rightarrow> state \<Rightarrow> (error + unit) \<times> state" where
  "resolve_pending conv [] s = (Inr (), s)"
| "resolve_pending conv (p # ps) s =
     (case resolve_detector conv (fst p) (snd p) s of
        (Inl e, s1) \<Rightarrow> (Inl e, s1)
      | (Inr u, s1) \<Rightarrow> resolve_pending conv ps s1)"

text \<open>
  The states the manager can be in: every registered model has been allocated, no
  detector is pending twice, and a section has one entry per key.
\<close>

definition wf_state :: "state \<Rightarrow> bool" where
  "wf_state s \<longleftrightarrow>
     list_all (\<lambda>model. model_id model < next_model_id s) (models s)
     \<and> distinct (map (\<lambda>p. snd (snd p)) (pending s))
     \<and> list_all (\<lambda>p. distinct (map fst (cfg_map (fst (snd p))))) (pending s)"

text \<open>The model a detector at an address is resolved to.\<close>

definition model_of :: "state \<Rightarrow> nat \<Rightarrow> ModelInstance option" where
  "model_of s a = (case deref a s of None \<Rightarrow> None | Some d \<Rightarrow> det_model d)"

text \<open>
  The points the bounding box is folded over: the eight corners of the box of every
  detector, in global coordinates, and the points added to the manager.
\<close>

definition detector_corners :: "state \<Rightarrow> nat \<Rightarrow> XYZPoint list" where
  "detector_corners s a =
     (case deref a s of
        None \<Rightarrow> []
      | Some d \<Rightarrow>
          (case det_model d of
             None \<Rightarrow> []
           | Some model \<Rightarrow> map (\<lambda>i. getGlobalPosition d (box_corner (model_obj model) i)) [0..<8]))"

definition geometry_points :: "state \<Rightarrow> XYZPoint list" where
  "geometry_points s = concat (map (detector_corners s) (detectors s)) @ points s"

text \<open>
  The bodies of the loops of \<^verbatim>\<open>merge\<close>, of the overlay of \<^verbatim>\<open>close_geometry\<close> and
  of \<^verbatim>\<open>getConfigurations\<close>, named to reason about the loops.
\<close>

definition merge_step :: "string \<times> string \<Rightarrow> Configuration \<Rightarrow> Configuration" where
  "merge_step config_pair c =
     (if has (fst config_pair) c then c else setText (fst config_pair) (snd config_pair) c)"

definition overlay_step :: "string \<times> string \<Rightarrow> Configuration \<Rightarrow> Configuration" where
  "overlay_step key_value cfg =
     (if fst key_value = ''type'' \<or> fst key_value = ''position''
         \<or> fst key_value = ''orientation_mode'' \<or> fst key_value = ''orientation''
      then cfg else setText (fst key_value) (snd key_value) cfg)"

definition collect_step :: "Configuration \<Rightarrow> Configuration \<times> Configuration list \<Rightarrow> Configuration \<times> Configuration list" where
  "collect_step config acc =
     (case acc of (global_config, configurations) \<Rightarrow>
        if getName config = [] then (merge config global_config, configurations)
        else (global_config, configurations @ [config]))"

text \<open>
  Two states with the same registries; a pending detector that holds the model the
  closing gives it, which is the generic model or a model allocated since the state
  \<open>s\<close>; and the identity of the model a pending detector holds.
\<close>

definition same_registry :: "state \<Rightarrow> state \<Rightarrow> bool" where
  "same_registry s s' \<longleftrightarrow>
     is_closed s' = is_closed s \<and> models s' = models s \<and> model_names s' = model_names s
     \<and> nonresolved_models s' = nonresolved_models s \<and> detectors s' = detectors s
     \<and> detector_names s' = detector_names s \<and> points s' = points s
     \<and> model_paths s' = model_paths s"

definition resolved :: "StringConversions \<Rightarrow> state \<Rightarrow> state \<Rightarrow> string \<times> Configuration \<times> nat \<Rightarrow> bool" where
  "resolved conv s s' p \<longleftrightarrow>
     (\<exists>generic mi.
        getModel (fst p) s = Inr generic \<and> snd (snd p) < length (detector_heap s')
        \<and> det_model (detector_heap s' ! snd (snd p)) = Some mi
        \<and> (if extra_keys (fst (snd p)) = [] then mi = generic
            else next_model_id s \<le> model_id mi \<and> model_id mi < next_model_id s'
                 \<and> DetectorModel_ctor conv (fst p)
                      (new_config (fst (snd p)) # getConfigurations (model_obj generic))
                     = Inr (model_obj mi)))"

definition assigned_id :: "state \<Rightarrow> string \<times> Configuration \<times> nat \<Rightarrow> nat option" where
  "assigned_id s p = map_option model_id (det_model (detector_heap s ! snd (snd p)))"

section \<open>Example inputs\<close>

text \<open>
  A model of 2 by 2 pixels with four support layers: two on the chip side with an
  absolute one declared between them, and one on the sensor side. Its lengths are
  \<^verbatim>\<open>double\<close> values with few bits, so that no operation on them rounds.
\<close>

definition example_layer :: "real \<Rightarrow> real \<Rightarrow> XYZVector \<Rightarrow> string \<Rightarrow> SupportLayer" where
  "example_layer width thickness offset location =
     SupportLayer_ctor (XYZVector width width thickness) offset ''g10'' location
       (XYZVector 0 0 thickness) (XYVector 0 0)"

definition example_model :: DetectorModel where
  "example_model =
     \<lparr> model_type = ''test'', number_of_pixels = XYIntVector 2 2,
       pixel_size = XYVector (1 / 8) (1 / 8), sensor_thickness = 1 / 4,
       sensor_excess = Array4 0 0 0 0, chip_thickness = 1 / 8,
       support_layers =
         [example_layer 1 (1 / 2) (XYZVector 0 0 0) ''chip'',
          example_layer 1 (1 / 4) (XYZVector 0 0 (- 5)) ''absolute'',
          example_layer 2 1 (XYZVector 0 0 0) ''chip'',
          example_layer 1 (1 / 4) (XYZVector 0 0 0) ''sensor''],
       reader = [] \<rparr>"

text \<open>
  Conversions that read the few texts the examples use, the file of a model \<open>X\<close>
  with one support layer, and a manager with three detectors of type \<open>X\<close> pending:
  \<open>d0\<close> has no parameter of its own, \<open>d1\<close> and \<open>d2\<close> both override the sensor
  thickness, with the same value.
\<close>

definition example_conv :: StringConversions where
  "example_conv =
     \<lparr> double_from_string =
         (\<lambda>s. if s = ''0.25'' then Some (1 / 4) else if s = ''0.5'' then Some (1 / 2)
               else if s = ''1'' then Some 1 else None),
       string_from_string = Some,
       XYVector_from_string =
         (\<lambda>s. if s = ''0.125 0.125'' then Some (XYVector (1 / 8) (1 / 8))
               else if s = ''1 1'' then Some (XYVector 1 1) else None),
       XYIntVector_from_string = (\<lambda>s. if s = ''2 2'' then Some (XYIntVector 2 2) else None),
       XYZVector_from_string = (\<lambda>s. if s = ''0 0 -5'' then Some (XYZVector 0 0 (- 5)) else None) \<rparr>"

definition example_reader :: ConfigReader where
  "example_reader =
     [\<lparr> cfg_name = [], cfg_path = ''X.conf'',
        cfg_map = [(''type'', ''hybrid''), (''number_of_pixels'', ''2 2''),
                   (''pixel_size'', ''0.125 0.125''), (''sensor_thickness'', ''0.25'')] \<rparr>,
      \<lparr> cfg_name = ''support'', cfg_path = ''X.conf'',
        cfg_map = [(''thickness'', ''1''), (''size'', ''1 1''), (''location'', ''sensor'')] \<rparr>]"

definition example_files :: "string list \<Rightarrow> (string \<times> ConfigReader) list" where
  "example_files paths = [(''X'', example_reader)]"

definition example_detector :: "string \<Rightarrow> Detector" where
  "example_detector name =
     \<lparr> det_name = name, det_position = XYZVector 1 2 3,
       det_orientation = Rotation3D 1 0 0 0 1 0 0 0 1, det_model = None \<rparr>"

definition example_config :: "string \<Rightarrow> (string \<times> string) list \<Rightarrow> Configuration" where
  "example_config name extra =
     \<lparr> cfg_name = name, cfg_path = ''main.conf'',
       cfg_map = [(''type'', ''X''), (''position'', ''0 0 0'')] @ extra \<rparr>"

definition example_state :: state where
  "example_state =
     GeometryManager_ctor
       \<lparr> nonresolved_models :=
           [(''X'', [(example_config ''d0'' [], 0),
                     (example_config ''d1'' [(''sensor_thickness'', ''0.5'')], 1),
                     (example_config ''d2'' [(''sensor_thickness'', ''0.5'')], 2)])],
         detectors := [0, 1, 2], detector_names := {''d0'', ''d1'', ''d2''},
         detector_heap := [example_detector ''d0'', example_detector ''d1'', example_detector ''d2''] \<rparr>"

definition example_closed :: state where
  "example_closed = snd (close_geometry example_conv example_files example_state)"

text \<open>
  A closed manager with one detector resolved to the example model, placed at
  \<open>(1, 2, 3)\<close> without rotation, and one extra point.
\<close>

definition example_placed :: state where
  "example_placed =
     GeometryManager_ctor
       \<lparr> is_closed := True, detectors := [0], detector_names := {''d0''},
         points := [XYZVector (- 7) 0 0],
         detector_heap :=
           [(example_detector ''d0'')
              \<lparr>det_model := Some \<lparr> model_id = 0, model_class = HybridPixelDetectorModel,
                                     model_obj = example_model \<rparr>\<rparr>],
         next_model_id := 1 \<rparr>"



section \<open>Rounding\<close>

text \<open>
  Powers of two, the exponent of the leading bit and rounding to the nearest integer
  are monotone; hence so is rounding to \<^verbatim>\<open>double\<close>. A number between \<open>2\<^sup>e\<close> and
  \<open>2\<^sup>e\<^sup>+\<^sup>1\<close> rounds to the multiple \<open>n\<close> of its quantum that is nearer than half a
  quantum, or that is at half a quantum and even.
\<close>

lemma pow2_powr: "pow2 e = 2 powr (real_of_int e)"
proof (cases "0 \<le> e")
  case True
  have "2 powr real_of_int e = 2 powr real (nat e)" using True by simp
  also have "\<dots> = 2 ^ nat e" by (simp add: powr_realpow)
  finally show ?thesis using True by (simp add: pow2_def)
next
  case False
  have "2 powr real_of_int e = 2 powr (- real (nat (- e)))" using False by simp
  also have "\<dots> = 1 / 2 ^ nat (- e)" by (simp add: powr_minus powr_realpow divide_inverse)
  finally show ?thesis using False by (simp add: pow2_def)
qed

lemma pow2_pos: "0 < pow2 e"
  by (simp add: pow2_powr)


lemma pow2_less_iff: "pow2 a < pow2 b \<longleftrightarrow> a < b"
  by (simp add: pow2_powr)


lemma pow2_numeral: "pow2 (int n) = 2 ^ n"
  by (simp add: pow2_def)

lemma binade_bounds:
  assumes "0 < a"
  shows "pow2 (binade a) \<le> a \<and> a < pow2 (binade a + 1)"
proof (cases "1 \<le> a")
  case True
  define n where "n = \<lfloor>a\<rfloor>"
  have n: "0 < n" using True by (simp add: n_def)
  from bitlen_bounds [OF n] have lo: "2 ^ nat (bitlen n - 1) \<le> n" and hi: "n < 2 ^ nat (bitlen n)"
    by simp_all
  have b1: "1 \<le> bitlen n" using n by (simp add: bitlen_alt_def)
  have "pow2 (bitlen n - 1) = 2 ^ nat (bitlen n - 1)"
    using b1 by (simp add: pow2_def)
  also have "\<dots> \<le> real_of_int n" using lo by (metis of_int_le_iff of_int_numeral of_int_power)
  also have "\<dots> \<le> a" by (simp add: n_def)
  finally have 1: "pow2 (binade a) \<le> a" using True by (simp add: binade_def n_def)
  have "n + 1 \<le> 2 ^ nat (bitlen n)" using hi by simp
  then have "real_of_int (n + 1) \<le> 2 ^ nat (bitlen n)"
    by (metis of_int_le_iff of_int_numeral of_int_power)
  moreover have "a < real_of_int (n + 1)" by (simp add: n_def)
  ultimately have "a < 2 ^ nat (bitlen n)" by simp
  also have "\<dots> = pow2 (bitlen n)" using b1 by (simp add: pow2_def)
  finally have 2: "a < pow2 (binade a + 1)" using True by (simp add: binade_def n_def)
  from 1 2 show ?thesis ..
next
  case False
  define y where "y = 1 / a"
  define k where "k = \<lceil>y\<rceil> - 1"
  have y1: "1 < y" using False assms by (simp add: y_def)
  have k: "0 < k" unfolding k_def using y1 by linarith
  have ky: "real_of_int k < y" "y \<le> real_of_int k + 1"
    unfolding k_def by linarith+
  from bitlen_bounds [OF k] have lo: "2 ^ nat (bitlen k - 1) \<le> k" and hi: "k < 2 ^ nat (bitlen k)"
    by simp_all
  have b1: "1 \<le> bitlen k" using k by (simp add: bitlen_alt_def)
  have bin: "binade a = - bitlen k" using False by (simp add: binade_def k_def y_def)
  have "k + 1 \<le> 2 ^ nat (bitlen k)" using hi by simp
  then have "real_of_int (k + 1) \<le> 2 ^ nat (bitlen k)"
    by (metis of_int_le_iff of_int_numeral of_int_power)
  with ky have "y \<le> 2 ^ nat (bitlen k)" by simp
  then have "1 / 2 ^ nat (bitlen k) \<le> a"
    using assms by (simp add: y_def field_simps)
  moreover have "pow2 (- bitlen k) = 1 / 2 ^ nat (bitlen k)"
    using b1 by (simp add: pow2_def)
  ultimately have 1: "pow2 (binade a) \<le> a" by (simp add: bin)
  have "(2::real) ^ nat (bitlen k - 1) \<le> real_of_int k"
    using lo by (metis of_int_le_iff of_int_numeral of_int_power)
  then have "2 ^ nat (bitlen k - 1) < y" using ky by linarith
  then have "a < 1 / 2 ^ nat (bitlen k - 1)"
    using assms by (simp add: y_def field_simps)
  moreover have "pow2 (- bitlen k + 1) = 1 / 2 ^ nat (bitlen k - 1)"
  proof (cases "bitlen k = 1")
    case True
    then show ?thesis by (simp add: pow2_def)
  next
    case False
    with b1 have "- bitlen k + 1 < 0" by simp
    moreover have "- (- bitlen k + 1) = bitlen k - 1" by simp
    ultimately show ?thesis by (simp add: pow2_def)
  qed
  ultimately have 2: "a < pow2 (binade a + 1)" by (simp add: bin)
  from 1 2 show ?thesis ..
qed






lemma fl_pos_eq: "0 < x \<Longrightarrow> fl x = of_int (round_even (x / quantum x)) * quantum x"
  by (simp add: fl_def)


lemma fl_minus: "fl (- x) = - fl x"
  by (simp add: fl_def)




lemma binade_eq:
  assumes "pow2 e \<le> x" "x < pow2 (e + 1)"
  shows "binade x = e"
proof -
  have x: "0 < x" using assms(1) pow2_pos [of e] by linarith
  have b: "pow2 (binade x) \<le> x" "x < pow2 (binade x + 1)"
    using binade_bounds [OF x] by simp_all
  have "pow2 e < pow2 (binade x + 1)" using assms(1) b(2) by linarith
  then have 1: "e < binade x + 1" by (simp add: pow2_less_iff)
  have "pow2 (binade x) < pow2 (e + 1)" using assms(2) b(1) by linarith
  then have 2: "binade x < e + 1" by (simp add: pow2_less_iff)
  show ?thesis using 1 2 by simp
qed

lemma round_even_near:
  assumes "\<bar>t - of_int n\<bar> < 1 / 2 \<or> \<bar>t - of_int n\<bar> = 1 / 2 \<and> even n"
  shows "round_even t = n"
proof (cases "of_int n \<le> t")
  case True
  then have f: "\<lfloor>t\<rfloor> = n" using assms by (intro floor_unique) auto
  have "t - of_int n < 1 / 2 \<or> t - of_int n = 1 / 2 \<and> even n" using assms True by auto
  then show ?thesis unfolding round_even_def Let_def f by auto
next
  case False
  then have f: "\<lfloor>t\<rfloor> = n - 1" using assms by (intro floor_unique) auto
  have "1 / 2 < t - of_int (n - 1) \<or> t - of_int (n - 1) = 1 / 2 \<and> odd (n - 1)"
    using assms False by auto
  then show ?thesis unfolding round_even_def Let_def f by auto
qed

lemma fl_near:
  assumes "pow2 e \<le> x" "x < pow2 (e + 1)"
    and "\<bar>x / pow2 (max e (- 1022) - 52) - of_int n\<bar> < 1 / 2
         \<or> \<bar>x / pow2 (max e (- 1022) - 52) - of_int n\<bar> = 1 / 2 \<and> even n"
  shows "fl x = of_int n * pow2 (max e (- 1022) - 52)"
proof -
  have x: "0 < x" using assms(1) pow2_pos [of e] by linarith
  have q: "quantum x = pow2 (max e (- 1022) - 52)"
    by (simp add: quantum_def binade_eq [OF assms(1,2)])
  show ?thesis
    using x round_even_near [OF assms(3)] by (simp add: fl_pos_eq q)
qed



section \<open>The values of the examples\<close>

text \<open>
  The roundings the examples go through, each proved from its exponent and its multiple
  of the quantum.
\<close>

lemma double_zero: "fl 0 = 0"
  by (simp add: fl_def)

lemma double_0: "fl (- (41 / 4)) = - (41 / 4)"
  using fl_near [where x = "(41 / 4)" and e = "3" and n = "5770237022568448"] by (simp add: pow2_def fl_minus)

lemma double_1: "fl (- (41 / 8)) = - (41 / 8)"
  using fl_near [where x = "(41 / 8)" and e = "2" and n = "5770237022568448"] by (simp add: pow2_def fl_minus)

lemma double_2: "fl (- 5) = - 5"
  using fl_near [where x = "5" and e = "2" and n = "5629499534213120"] by (simp add: pow2_def fl_minus)

lemma double_3: "fl (- (39 / 8)) = - (39 / 8)"
  using fl_near [where x = "(39 / 8)" and e = "2" and n = "5488762045857792"] by (simp add: pow2_def fl_minus)

lemma double_4: "fl (- (17 / 8)) = - (17 / 8)"
  using fl_near [where x = "(17 / 8)" and e = "1" and n = "4785074604081152"] by (simp add: pow2_def fl_minus)

lemma double_5: "fl (- 2) = - 2"
  using fl_near [where x = "2" and e = "1" and n = "4503599627370496"] by (simp add: pow2_def fl_minus)

lemma double_6: "fl (- 1) = - 1"
  using fl_near [where x = "1" and e = "0" and n = "4503599627370496"] by (simp add: pow2_def fl_minus)

lemma double_7: "fl (- (15 / 16)) = - (15 / 16)"
  using fl_near [where x = "(15 / 16)" and e = "-1" and n = "8444249301319680"] by (simp add: pow2_def fl_minus)

lemma double_8: "fl (- (32425917317067571 / 72057594037927936)) = - (8106479329266893 / 18014398509481984)"
  using fl_near [where x = "(32425917317067571 / 72057594037927936)" and e = "-2" and n = "8106479329266893"] by (simp add: pow2_def fl_minus)

lemma double_9: "fl (- (16212958658533785 / 36028797018963968)) = - (2026619832316723 / 4503599627370496)"
  using fl_near [where x = "(16212958658533785 / 36028797018963968)" and e = "-2" and n = "8106479329266892"] by (simp add: pow2_def fl_minus)

lemma double_10: "fl (- (7 / 16)) = - (7 / 16)"
  using fl_near [where x = "(7 / 16)" and e = "-2" and n = "7881299347898368"] by (simp add: pow2_def fl_minus)

lemma double_11: "fl (- (3 / 8)) = - (3 / 8)"
  using fl_near [where x = "(3 / 8)" and e = "-2" and n = "6755399441055744"] by (simp add: pow2_def fl_minus)

lemma double_12: "fl (- (1 / 4)) = - (1 / 4)"
  using fl_near [where x = "(1 / 4)" and e = "-2" and n = "4503599627370496"] by (simp add: pow2_def fl_minus)

lemma double_13: "fl (- (7205759403792793 / 36028797018963968)) = - (7205759403792793 / 36028797018963968)"
  using fl_near [where x = "(7205759403792793 / 36028797018963968)" and e = "-3" and n = "7205759403792793"] by (simp add: pow2_def fl_minus)

lemma double_14: "fl (- (5404319552844595 / 36028797018963968)) = - (5404319552844595 / 36028797018963968)"
  using fl_near [where x = "(5404319552844595 / 36028797018963968)" and e = "-3" and n = "5404319552844595"] by (simp add: pow2_def fl_minus)

lemma double_15: "fl (- (1 / 8)) = - (1 / 8)"
  using fl_near [where x = "(1 / 8)" and e = "-3" and n = "4503599627370496"] by (simp add: pow2_def fl_minus)

lemma double_16: "fl (- (7205759403792793 / 72057594037927936)) = - (7205759403792793 / 72057594037927936)"
  using fl_near [where x = "(7205759403792793 / 72057594037927936)" and e = "-4" and n = "7205759403792793"] by (simp add: pow2_def fl_minus)

lemma double_17: "fl (- (1 / 16)) = - (1 / 16)"
  using fl_near [where x = "(1 / 16)" and e = "-4" and n = "4503599627370496"] by (simp add: pow2_def fl_minus)

lemma double_18: "fl (- (3602879701896397 / 72057594037927936)) = - (3602879701896397 / 72057594037927936)"
  using fl_near [where x = "(3602879701896397 / 72057594037927936)" and e = "-5" and n = "7205759403792794"] by (simp add: pow2_def fl_minus)

lemma double_20: "fl (1 / 20) = (3602879701896397 / 72057594037927936)"
  using fl_near [where x = "(1 / 20)" and e = "-5" and n = "7205759403792794"] by (simp add: pow2_def)

lemma double_21: "fl (3602879701896397 / 72057594037927936) = (3602879701896397 / 72057594037927936)"
  using fl_near [where x = "(3602879701896397 / 72057594037927936)" and e = "-5" and n = "7205759403792794"] by (simp add: pow2_def)

lemma double_22: "fl (1 / 16) = (1 / 16)"
  using fl_near [where x = "(1 / 16)" and e = "-4" and n = "4503599627370496"] by (simp add: pow2_def)

lemma double_23: "fl (1 / 10) = (3602879701896397 / 36028797018963968)"
  using fl_near [where x = "(1 / 10)" and e = "-4" and n = "7205759403792794"] by (simp add: pow2_def)

lemma double_24: "fl (3602879701896397 / 36028797018963968) = (3602879701896397 / 36028797018963968)"
  using fl_near [where x = "(3602879701896397 / 36028797018963968)" and e = "-4" and n = "7205759403792794"] by (simp add: pow2_def)

lemma double_25: "fl (1 / 8) = (1 / 8)"
  using fl_near [where x = "(1 / 8)" and e = "-3" and n = "4503599627370496"] by (simp add: pow2_def)

lemma double_26: "fl (5404319552844595 / 36028797018963968) = (5404319552844595 / 36028797018963968)"
  using fl_near [where x = "(5404319552844595 / 36028797018963968)" and e = "-3" and n = "5404319552844595"] by (simp add: pow2_def)

lemma double_27: "fl (10808639105689191 / 72057594037927936) = (1351079888211149 / 9007199254740992)"
  using fl_near [where x = "(10808639105689191 / 72057594037927936)" and e = "-3" and n = "5404319552844596"] by (simp add: pow2_def)

lemma double_28: "fl (3 / 16) = (3 / 16)"
  using fl_near [where x = "(3 / 16)" and e = "-3" and n = "6755399441055744"] by (simp add: pow2_def)

lemma double_29: "fl (1 / 5) = (3602879701896397 / 18014398509481984)"
  using fl_near [where x = "(1 / 5)" and e = "-3" and n = "7205759403792794"] by (simp add: pow2_def)

lemma double_30: "fl (3602879701896397 / 18014398509481984) = (3602879701896397 / 18014398509481984)"
  using fl_near [where x = "(3602879701896397 / 18014398509481984)" and e = "-3" and n = "7205759403792794"] by (simp add: pow2_def)

lemma double_31: "fl (14411518807585589 / 72057594037927936) = (3602879701896397 / 18014398509481984)"
  using fl_near [where x = "(14411518807585589 / 72057594037927936)" and e = "-3" and n = "7205759403792794"] by (simp add: pow2_def)

lemma double_32: "fl (9007199254740991 / 36028797018963968) = (9007199254740991 / 36028797018963968)"
  using fl_near [where x = "(9007199254740991 / 36028797018963968)" and e = "-3" and n = "9007199254740991"] by (simp add: pow2_def)

lemma double_33: "fl (1 / 4) = (1 / 4)"
  using fl_near [where x = "(1 / 4)" and e = "-2" and n = "4503599627370496"] by (simp add: pow2_def)

lemma double_34: "fl (18014398509481985 / 72057594037927936) = (1 / 4)"
  using fl_near [where x = "(18014398509481985 / 72057594037927936)" and e = "-2" and n = "4503599627370496"] by (simp add: pow2_def)

lemma double_35: "fl (9007199254740993 / 36028797018963968) = (1 / 4)"
  using fl_near [where x = "(9007199254740993 / 36028797018963968)" and e = "-2" and n = "4503599627370496"] by (simp add: pow2_def)

lemma double_36: "fl (10808639105689189 / 36028797018963968) = (2702159776422297 / 9007199254740992)"
  using fl_near [where x = "(10808639105689189 / 36028797018963968)" and e = "-2" and n = "5404319552844594"] by (simp add: pow2_def)

lemma double_37: "fl (5404319552844595 / 18014398509481984) = (5404319552844595 / 18014398509481984)"
  using fl_near [where x = "(5404319552844595 / 18014398509481984)" and e = "-2" and n = "5404319552844595"] by (simp add: pow2_def)

lemma double_38: "fl (3 / 10) = (5404319552844595 / 18014398509481984)"
  using fl_near [where x = "(3 / 10)" and e = "-2" and n = "5404319552844595"] by (simp add: pow2_def)

lemma double_39: "fl (3152519739159347 / 9007199254740992) = (3152519739159347 / 9007199254740992)"
  using fl_near [where x = "(3152519739159347 / 9007199254740992)" and e = "-2" and n = "6305039478318694"] by (simp add: pow2_def)

lemma double_40: "fl (12610078956637389 / 36028797018963968) = (3152519739159347 / 9007199254740992)"
  using fl_near [where x = "(12610078956637389 / 36028797018963968)" and e = "-2" and n = "6305039478318694"] by (simp add: pow2_def)

lemma double_41: "fl (14411518807585587 / 36028797018963968) = (3602879701896397 / 9007199254740992)"
  using fl_near [where x = "(14411518807585587 / 36028797018963968)" and e = "-2" and n = "7205759403792794"] by (simp add: pow2_def)

lemma double_42: "fl (14411518807585589 / 36028797018963968) = (3602879701896397 / 9007199254740992)"
  using fl_near [where x = "(14411518807585589 / 36028797018963968)" and e = "-2" and n = "7205759403792794"] by (simp add: pow2_def)

lemma double_43: "fl (2026619832316723 / 4503599627370496) = (2026619832316723 / 4503599627370496)"
  using fl_near [where x = "(2026619832316723 / 4503599627370496)" and e = "-2" and n = "8106479329266892"] by (simp add: pow2_def)

lemma double_44: "fl (16212958658533785 / 36028797018963968) = (2026619832316723 / 4503599627370496)"
  using fl_near [where x = "(16212958658533785 / 36028797018963968)" and e = "-2" and n = "8106479329266892"] by (simp add: pow2_def)

lemma double_45: "fl (8106479329266893 / 18014398509481984) = (8106479329266893 / 18014398509481984)"
  using fl_near [where x = "(8106479329266893 / 18014398509481984)" and e = "-2" and n = "8106479329266893"] by (simp add: pow2_def)

lemma double_46: "fl (1 / 2) = (1 / 2)"
  using fl_near [where x = "(1 / 2)" and e = "-1" and n = "4503599627370496"] by (simp add: pow2_def)

lemma double_47: "fl (36028797018963969 / 72057594037927936) = (1 / 2)"
  using fl_near [where x = "(36028797018963969 / 72057594037927936)" and e = "-1" and n = "4503599627370496"] by (simp add: pow2_def)

lemma double_48: "fl (36028797018963971 / 72057594037927936) = (1 / 2)"
  using fl_near [where x = "(36028797018963971 / 72057594037927936)" and e = "-1" and n = "4503599627370496"] by (simp add: pow2_def)

lemma double_49: "fl (39631676720860365 / 72057594037927936) = (2476979795053773 / 4503599627370496)"
  using fl_near [where x = "(39631676720860365 / 72057594037927936)" and e = "-1" and n = "4953959590107546"] by (simp add: pow2_def)

lemma double_50: "fl (9 / 16) = (9 / 16)"
  using fl_near [where x = "(9 / 16)" and e = "-1" and n = "5066549580791808"] by (simp add: pow2_def)

lemma double_51: "fl (5404319552844595 / 9007199254740992) = (5404319552844595 / 9007199254740992)"
  using fl_near [where x = "(5404319552844595 / 9007199254740992)" and e = "-1" and n = "5404319552844595"] by (simp add: pow2_def)

lemma double_52: "fl (21617278211378381 / 36028797018963968) = (5404319552844595 / 9007199254740992)"
  using fl_near [where x = "(21617278211378381 / 36028797018963968)" and e = "-1" and n = "5404319552844595"] by (simp add: pow2_def)

lemma double_53: "fl (3 / 4) = (3 / 4)"
  using fl_near [where x = "(3 / 4)" and e = "-1" and n = "6755399441055744"] by (simp add: pow2_def)

lemma double_54: "fl (2026619832316723 / 2251799813685248) = (2026619832316723 / 2251799813685248)"
  using fl_near [where x = "(2026619832316723 / 2251799813685248)" and e = "-1" and n = "8106479329266892"] by (simp add: pow2_def)

lemma double_55: "fl 1 = 1"
  using fl_near [where x = "1" and e = "0" and n = "4503599627370496"] by (simp add: pow2_def)

lemma double_56: "fl (17 / 16) = (17 / 16)"
  using fl_near [where x = "(17 / 16)" and e = "0" and n = "4785074604081152"] by (simp add: pow2_def)

lemma double_57: "fl (5404319552844595 / 4503599627370496) = (5404319552844595 / 4503599627370496)"
  using fl_near [where x = "(5404319552844595 / 4503599627370496)" and e = "0" and n = "5404319552844595"] by (simp add: pow2_def)

lemma double_58: "fl (5 / 4) = (5 / 4)"
  using fl_near [where x = "(5 / 4)" and e = "0" and n = "5629499534213120"] by (simp add: pow2_def)

lemma double_59: "fl (7 / 4) = (7 / 4)"
  using fl_near [where x = "(7 / 4)" and e = "0" and n = "7881299347898368"] by (simp add: pow2_def)

lemma double_60: "fl 2 = 2"
  using fl_near [where x = "2" and e = "1" and n = "4503599627370496"] by (simp add: pow2_def)

lemma double_61: "fl (33 / 16) = (33 / 16)"
  using fl_near [where x = "(33 / 16)" and e = "1" and n = "4644337115725824"] by (simp add: pow2_def)

lemma double_62: "fl (49 / 16) = (49 / 16)"
  using fl_near [where x = "(49 / 16)" and e = "1" and n = "6896136929411072"] by (simp add: pow2_def)

lemma double_63: "fl (41 / 8) = (41 / 8)"
  using fl_near [where x = "(41 / 8)" and e = "2" and n = "5770237022568448"] by (simp add: pow2_def)

lemma double_64: "fl (65 / 8) = (65 / 8)"
  using fl_near [where x = "(65 / 8)" and e = "3" and n = "4573968371548160"] by (simp add: pow2_def)

lemma double_65: "fl (41 / 4) = (41 / 4)"
  using fl_near [where x = "(41 / 4)" and e = "3" and n = "5770237022568448"] by (simp add: pow2_def)

lemmas doubles =
  double_zero double_0 double_1 double_2 double_3 double_4 double_5 double_6 double_7 double_8
  double_9 double_10 double_11 double_12 double_13 double_14 double_15 double_16 double_17
  double_18 double_20 double_21 double_22 double_23 double_24 double_25 double_26 double_27
  double_28 double_29 double_30 double_31 double_32 double_33 double_34 double_35 double_36
  double_37 double_38 double_39 double_40 double_41 double_42 double_43 double_44 double_45
  double_46 double_47 double_48 double_49 double_50 double_51 double_52 double_53 double_54
  double_55 double_56 double_57 double_58 double_59 double_60 double_61 double_62 double_63
  double_64 double_65

section \<open>The center of a model\<close>

text \<open>
  C1. For a pixel grid of \<open>n \<times> m\<close> pixels of size \<open>(w, h)\<close>, \<^verbatim>\<open>getCenter()\<close> is
  \<open>(n w / 2 - w / 2, m h / 2 - h / 2, 0)\<close>, each of its four operations rounded to
  \<^verbatim>\<open>double\<close>, whatever the other fields hold. For 2 by 2 pixels of size \<open>w\<close> by
  \<open>w\<close>, where \<open>w\<close>, its double and its half are values of \<^verbatim>\<open>double\<close>, no operation
  rounds and the center is \<open>(w / 2, w / 2, 0)\<close>: for the \<^verbatim>\<open>double\<close> of 0.1, which is
  100 micrometres, it is the \<^verbatim>\<open>double\<close> of 0.05 in both directions.
\<close>

theorem getCenter_formula:
  "getCenter m =
     XYZVector (fsub (fdiv (fmul (real_of_int (sint (xyi_x (number_of_pixels m)))) (xy_x (pixel_size m))) 2)
                     (fdiv (xy_x (pixel_size m)) 2))
               (fsub (fdiv (fmul (real_of_int (sint (xyi_y (number_of_pixels m)))) (xy_y (pixel_size m))) 2)
                     (fdiv (xy_y (pixel_size m)) 2)) 0
   \<and> (fl w = w \<and> fl (2 * w) = 2 * w \<and> fl (w / 2) = w / 2 \<longrightarrow>
        getCenter (m\<lparr>number_of_pixels := XYIntVector 2 2, pixel_size := XYVector w w\<rparr>)
          = XYZVector (w / 2) (w / 2) 0)"
proof (intro conjI impI)
  show "getCenter m =
     XYZVector (fsub (fdiv (fmul (real_of_int (sint (xyi_x (number_of_pixels m)))) (xy_x (pixel_size m))) 2)
                     (fdiv (xy_x (pixel_size m)) 2))
               (fsub (fdiv (fmul (real_of_int (sint (xyi_y (number_of_pixels m)))) (xy_y (pixel_size m))) 2)
                     (fdiv (xy_y (pixel_size m)) 2)) 0"
    by (simp add: getCenter_def getGridSize_def getNPixels_def getPixelSize_def)
next
  assume h: "fl w = w \<and> fl (2 * w) = 2 * w \<and> fl (w / 2) = w / 2"
  have grid: "fmul 2 w = 2 * w" using h by (simp add: fmul_def)
  have half_grid: "fdiv (2 * w) 2 = w" using h by (simp add: fdiv_def)
  have half_pixel: "fdiv w 2 = w / 2" using h by (simp add: fdiv_def)
  have diff: "fsub w (w / 2) = w / 2" using h by (simp add: fsub_def)
  show "getCenter (m\<lparr>number_of_pixels := XYIntVector 2 2, pixel_size := XYVector w w\<rparr>)
          = XYZVector (w / 2) (w / 2) 0"
    by (simp add: getCenter_def getGridSize_def getNPixels_def getPixelSize_def
          grid half_grid half_pixel diff)
qed

theorem getCenter_formula_witness:
  "fl (fl (1 / 10)) = fl (1 / 10) \<and> fl (2 * fl (1 / 10)) = 2 * fl (1 / 10)
   \<and> fl (fl (1 / 10) / 2) = fl (1 / 10) / 2
   \<and> getCenter (example_model\<lparr>number_of_pixels := XYIntVector 2 2,
                                pixel_size := XYVector (fl (1 / 10)) (fl (1 / 10))\<rparr>)
       = XYZVector (fl (1 / 20)) (fl (1 / 20)) 0"
  using getCenter_formula [where m = example_model and w = "fl (1 / 10)"] by (simp add: doubles)

section \<open>The bounding size of a model\<close>

lemma coord_extend_box_max:
  "coord a (fst (extend_box part box)) = max (coord a (fst box)) (upper_extent a part)"
  by (cases a; cases part; cases box)
     (simp_all add: extend_box_def upper_extent_def xyz_add_def xyz_div_def)

lemma coord_extend_box_min:
  "coord a (snd (extend_box part box)) = min (coord a (snd box)) (lower_extent a part)"
  by (cases a; cases part; cases box)
     (simp_all add: extend_box_def lower_extent_def xyz_sub_def xyz_div_def)

lemma fold_extend_box_max:
  "coord a (fst (fold extend_box ps box)) = Max (set (coord a (fst box) # map (upper_extent a) ps))"
proof (induction ps arbitrary: box)
  case Nil
  then show ?case by simp
next
  case (Cons p ps)
  have "Max (set (coord a (fst (extend_box p box)) # map (upper_extent a) ps))
        = Max (insert (max (coord a (fst box)) (upper_extent a p)) (set (map (upper_extent a) ps)))"
    by (simp add: coord_extend_box_max)
  also have "\<dots> = Max (insert (coord a (fst box)) (insert (upper_extent a p) (set (map (upper_extent a) ps))))"
    by (cases "ps = []") (simp_all add: max.assoc)
  finally show ?case using Cons.IH [of "extend_box p box"] by simp
qed

lemma fold_extend_box_min:
  "coord a (snd (fold extend_box ps box)) = Min (set (coord a (snd box) # map (lower_extent a) ps))"
proof (induction ps arbitrary: box)
  case Nil
  then show ?case by simp
next
  case (Cons p ps)
  have "Min (set (coord a (snd (extend_box p box)) # map (lower_extent a) ps))
        = Min (insert (min (coord a (snd box)) (lower_extent a p)) (set (map (lower_extent a) ps)))"
    by (simp add: coord_extend_box_min)
  also have "\<dots> = Min (insert (coord a (snd box)) (insert (lower_extent a p) (set (map (lower_extent a) ps))))"
    by (cases "ps = []") (simp_all add: min.assoc)
  finally show ?case using Cons.IH [of "extend_box p box"] by simp
qed

lemma getSize_coord: "coord a (getSize m) = fmul 2 (half_size a m)"
  by (cases a)
     (simp_all add: getSize_def half_size_def model_box_def model_parts_def Let_def split: prod.splits)

lemma model_box_max:
  "coord a (fst (model_box m)) = Max (set (DBL_LOWEST # map (upper_extent a) (model_parts m)))"
  unfolding model_box_def fold_extend_box_max by (cases a) simp_all

lemma model_box_min:
  "coord a (snd (model_box m)) = Min (set (DBL_MAX # map (lower_extent a) (model_parts m)))"
  unfolding model_box_def fold_extend_box_min by (cases a) simp_all

lemma model_parts_nonempty: "model_parts m \<noteq> []"
  by (simp add: model_parts_def)

lemma model_box_in_range:
  assumes range: "\<forall>part \<in> set (model_parts m).
         DBL_LOWEST \<le> upper_extent a part \<and> lower_extent a part \<le> DBL_MAX"
  shows "coord a (fst (model_box m)) = Max (set (map (upper_extent a) (model_parts m)))
         \<and> coord a (snd (model_box m)) = Min (set (map (lower_extent a) (model_parts m)))"
proof -
  let ?U = "set (map (upper_extent a) (model_parts m))"
  let ?L = "set (map (lower_extent a) (model_parts m))"
  have ne: "?U \<noteq> {}" "?L \<noteq> {}" using model_parts_nonempty by simp_all
  obtain p where p: "p \<in> set (model_parts m)"
    using model_parts_nonempty by (cases "model_parts m") auto
  have "Max (insert DBL_LOWEST ?U) = max DBL_LOWEST (Max ?U)"
    using ne by simp
  moreover have "DBL_LOWEST \<le> Max ?U"
  proof -
    have "DBL_LOWEST \<le> upper_extent a p" using range p by blast
    also have "\<dots> \<le> Max ?U" using p by (intro Max_ge) auto
    finally show ?thesis .
  qed
  ultimately have mx: "coord a (fst (model_box m)) = Max ?U"
    by (simp add: model_box_max)
  have "Min (insert DBL_MAX ?L) = min DBL_MAX (Min ?L)"
    using ne by simp
  moreover have "Min ?L \<le> DBL_MAX"
  proof -
    have "Min ?L \<le> lower_extent a p" using p by (intro Min_le) auto
    also have "\<dots> \<le> DBL_MAX" using range p by blast
    finally show ?thesis .
  qed
  ultimately have mn: "coord a (snd (model_box m)) = Min ?L"
    by (simp add: model_box_min)
  show ?thesis
    using mx mn by simp
qed

lemma half_size_in_range:
  assumes range: "\<forall>part \<in> set (model_parts m).
         DBL_LOWEST \<le> upper_extent a part \<and> lower_extent a part \<le> DBL_MAX"
  shows "half_size a m =
           max (fsub (Max (set (map (upper_extent a) (model_parts m)))) (coord a (getCenter m)))
               (fsub (coord a (getCenter m)) (Min (set (map (lower_extent a) (model_parts m)))))"
  using model_box_in_range [OF range] by (simp add: half_size_def)

lemma half_size_bounded:
  assumes "list_all (\<lambda>part. - 100 \<le> upper_extent a part \<and> lower_extent a part \<le> 100) (model_parts m)"
  shows "half_size a m =
           max (fsub (Max (set (map (upper_extent a) (model_parts m)))) (coord a (getCenter m)))
               (fsub (coord a (getCenter m)) (Min (set (map (lower_extent a) (model_parts m)))))"
proof (rule half_size_in_range, rule ballI)
  fix part assume "part \<in> set (model_parts m)"
  then have "- 100 \<le> upper_extent a part \<and> lower_extent a part \<le> 100"
    using assms by (simp add: list_all_iff)
  moreover have "DBL_LOWEST \<le> - 100" "100 \<le> DBL_MAX"
    by (simp_all add: DBL_LOWEST_def DBL_MAX_def)
  ultimately show "DBL_LOWEST \<le> upper_extent a part \<and> lower_extent a part \<le> DBL_MAX"
    by linarith
qed


text \<open>The center, the parts and the size of the example models.\<close>

lemma example_center: "getCenter example_model = XYZVector (1 / 16) (1 / 16) 0"
  by (simp add: example_model_def model_parts_def getSupportLayers_def getSensorCenter_def getSensorSize_def getChipCenter_def getChipSize_def getCenter_def getGridSize_def getNPixels_def getPixelSize_def example_layer_def SupportLayer_ctor_def xyz_add_def xyz_sub_def xyz_div_def SetZ_def fadd_def fsub_def fmul_def fdiv_def doubles)

lemma example_parts:
  "model_parts example_model =
     [(XYZVector (1 / 16) (1 / 16) 0, XYZVector (1 / 4) (1 / 4) (1 / 4)), (XYZVector (1 / 16) (1 / 16) (3 / 16), XYZVector (1 / 4) (1 / 4) (1 / 8)), (XYZVector (1 / 16) (1 / 16) (1 / 2), XYZVector 1 1 (1 / 2)), (XYZVector (1 / 16) (1 / 16) (- 5), XYZVector 1 1 (1 / 4)), (XYZVector (1 / 16) (1 / 16) (5 / 4), XYZVector 2 2 1), (XYZVector (1 / 16) (1 / 16) (- (1 / 4)), XYZVector 1 1 (1 / 4))]"
  by (simp add: example_model_def model_parts_def getSupportLayers_def getSensorCenter_def getSensorSize_def getChipCenter_def getChipSize_def getCenter_def getGridSize_def getNPixels_def getPixelSize_def example_layer_def SupportLayer_ctor_def xyz_add_def xyz_sub_def xyz_div_def SetZ_def fadd_def fsub_def fmul_def fdiv_def doubles)

lemma example_upper_X:
  "map (upper_extent AxisX) (model_parts example_model) = [(3 / 16), (3 / 16), (9 / 16), (9 / 16), (17 / 16), (9 / 16)]"
  by (simp add: example_parts upper_extent_def fadd_def fdiv_def doubles)

lemma example_lower_X:
  "map (lower_extent AxisX) (model_parts example_model) = [- (1 / 16), - (1 / 16), - (7 / 16), - (7 / 16), - (15 / 16), - (7 / 16)]"
  by (simp add: example_parts lower_extent_def fsub_def fdiv_def doubles)

lemma example_half_X: "half_size AxisX example_model = 1"
proof -
  have range: "list_all (\<lambda>part. - 100 \<le> upper_extent AxisX part \<and> lower_extent AxisX part \<le> 100) (model_parts example_model)"
    unfolding list_all_iff
  proof
    fix part assume p: "part \<in> set (model_parts example_model)"
    then have "upper_extent AxisX part \<in> set (map (upper_extent AxisX) (model_parts example_model))"
      and "lower_extent AxisX part \<in> set (map (lower_extent AxisX) (model_parts example_model))"
      by simp_all
    then show "- 100 \<le> upper_extent AxisX part \<and> lower_extent AxisX part \<le> 100"
      unfolding example_upper_X example_lower_X by auto
  qed
  show ?thesis
    unfolding half_size_bounded [OF range] example_upper_X example_lower_X
    by (simp add: example_center fsub_def doubles)
qed

lemma example_upper_Y:
  "map (upper_extent AxisY) (model_parts example_model) = [(3 / 16), (3 / 16), (9 / 16), (9 / 16), (17 / 16), (9 / 16)]"
  by (simp add: example_parts upper_extent_def fadd_def fdiv_def doubles)

lemma example_lower_Y:
  "map (lower_extent AxisY) (model_parts example_model) = [- (1 / 16), - (1 / 16), - (7 / 16), - (7 / 16), - (15 / 16), - (7 / 16)]"
  by (simp add: example_parts lower_extent_def fsub_def fdiv_def doubles)

lemma example_half_Y: "half_size AxisY example_model = 1"
proof -
  have range: "list_all (\<lambda>part. - 100 \<le> upper_extent AxisY part \<and> lower_extent AxisY part \<le> 100) (model_parts example_model)"
    unfolding list_all_iff
  proof
    fix part assume p: "part \<in> set (model_parts example_model)"
    then have "upper_extent AxisY part \<in> set (map (upper_extent AxisY) (model_parts example_model))"
      and "lower_extent AxisY part \<in> set (map (lower_extent AxisY) (model_parts example_model))"
      by simp_all
    then show "- 100 \<le> upper_extent AxisY part \<and> lower_extent AxisY part \<le> 100"
      unfolding example_upper_Y example_lower_Y by auto
  qed
  show ?thesis
    unfolding half_size_bounded [OF range] example_upper_Y example_lower_Y
    by (simp add: example_center fsub_def doubles)
qed

lemma example_upper_Z:
  "map (upper_extent AxisZ) (model_parts example_model) = [(1 / 8), (1 / 4), (3 / 4), - (39 / 8), (7 / 4), - (1 / 8)]"
  by (simp add: example_parts upper_extent_def fadd_def fdiv_def doubles)

lemma example_lower_Z:
  "map (lower_extent AxisZ) (model_parts example_model) = [- (1 / 8), (1 / 8), (1 / 4), - (41 / 8), (3 / 4), - (3 / 8)]"
  by (simp add: example_parts lower_extent_def fsub_def fdiv_def doubles)

lemma example_half_Z: "half_size AxisZ example_model = (41 / 8)"
proof -
  have range: "list_all (\<lambda>part. - 100 \<le> upper_extent AxisZ part \<and> lower_extent AxisZ part \<le> 100) (model_parts example_model)"
    unfolding list_all_iff
  proof
    fix part assume p: "part \<in> set (model_parts example_model)"
    then have "upper_extent AxisZ part \<in> set (map (upper_extent AxisZ) (model_parts example_model))"
      and "lower_extent AxisZ part \<in> set (map (lower_extent AxisZ) (model_parts example_model))"
      by simp_all
    then show "- 100 \<le> upper_extent AxisZ part \<and> lower_extent AxisZ part \<le> 100"
      unfolding example_upper_Z example_lower_Z by auto
  qed
  show ?thesis
    unfolding half_size_bounded [OF range] example_upper_Z example_lower_Z
    by (simp add: example_center fsub_def doubles)
qed

lemma example_size: "getSize example_model = XYZVector 2 2 (41 / 4)"
proof -
  have "getSize example_model = XYZVector (coord AxisX (getSize example_model)) (coord AxisY (getSize example_model)) (coord AxisZ (getSize example_model))"
    by simp
  then show ?thesis
    unfolding getSize_coord example_half_X example_half_Y example_half_Z by (simp add: fmul_def doubles)
qed











section \<open>Stacking of the support layers\<close>

lemma stack_layers_length: "length (stack_layers c so co ls) = length ls"
  by (induction ls arbitrary: so co) simp_all

















section \<open>The hole of a support layer\<close>

lemma stack_layers_hole_size:
  "map layer_hole_size (stack_layers c so co ls) = map layer_hole_size ls"
  by (induction ls arbitrary: so co) simp_all

lemma stack_layers_size:
  "map layer_size (stack_layers c so co ls) = map layer_size ls"
  by (induction ls arbitrary: so co) simp_all

text \<open>
  C10. \<^verbatim>\<open>addSupportLayer\<close> with thickness \<open>t\<close> appends one layer whose hole size is
  the configured in-plane hole size with \<open>t\<close> as its z component, and
  \<^verbatim>\<open>getSupportLayers\<close> returns the layer with that hole size and that thickness.
\<close>

theorem addSupportLayer_hole_spans_thickness:
  "support_layers (addSupportLayer sz t off mat loc hs ho m)
     = support_layers m @ [SupportLayer_ctor (XYZVector (xy_x sz) (xy_y sz) t) off mat loc
                              (XYZVector (xy_x hs) (xy_y hs) t) ho]
   \<and> getHoleSize (last (support_layers (addSupportLayer sz t off mat loc hs ho m)))
       = XYZVector (xy_x hs) (xy_y hs) t
   \<and> xyz_z (getHoleSize (last (getSupportLayers (addSupportLayer sz t off mat loc hs ho m)))) = t
   \<and> xyz_z (layer_size (last (getSupportLayers (addSupportLayer sz t off mat loc hs ho m)))) = t"
proof -
  let ?m = "addSupportLayer sz t off mat loc hs ho m"
  let ?l = "SupportLayer_ctor (XYZVector (xy_x sz) (xy_y sz) t) off mat loc (XYZVector (xy_x hs) (xy_y hs) t) ho"
  have sl: "support_layers ?m = support_layers m @ [?l]"
    by (simp add: addSupportLayer_def)
  have "length (getSupportLayers ?m) = length (support_layers ?m)"
    by (simp add: getSupportLayers_def stack_layers_length)
  then have ne: "getSupportLayers ?m \<noteq> []"
    using sl by auto
  have "layer_hole_size (last (getSupportLayers ?m)) = last (map layer_hole_size (getSupportLayers ?m))"
    using ne by (simp add: last_map)
  also have "\<dots> = last (map layer_hole_size (support_layers ?m))"
    by (simp add: getSupportLayers_def stack_layers_hole_size)
  also have "\<dots> = XYZVector (xy_x hs) (xy_y hs) t"
    by (simp add: sl SupportLayer_ctor_def)
  finally have h: "layer_hole_size (last (getSupportLayers ?m)) = XYZVector (xy_x hs) (xy_y hs) t" .
  have "layer_size (last (getSupportLayers ?m)) = last (map layer_size (getSupportLayers ?m))"
    using ne by (simp add: last_map)
  also have "\<dots> = last (map layer_size (support_layers ?m))"
    by (simp add: getSupportLayers_def stack_layers_size)
  also have "\<dots> = XYZVector (xy_x sz) (xy_y sz) t"
    by (simp add: sl SupportLayer_ctor_def)
  finally have s: "layer_size (last (getSupportLayers ?m)) = XYZVector (xy_x sz) (xy_y sz) t" .
  show ?thesis
    using sl h s by (simp add: getHoleSize_def SupportLayer_ctor_def)
qed


section \<open>The closed and the open manager\<close>

lemma close_geometry_closed:
  "close_geometry conv files s = (Inr u, s') \<Longrightarrow> is_closed s'"
  by (auto simp: close_geometry_def split: prod.splits sum.splits)

lemma close_if_open_closed:
  "close_if_open conv files s = (Inr u, s') \<Longrightarrow> is_closed s'"
  by (auto simp: close_if_open_def dest: close_geometry_closed split: if_splits)

lemma close_if_open_idle:
  "is_closed s \<Longrightarrow> close_if_open conv files s = (Inr (), s)"
  by (simp add: close_if_open_def)

lemma example_state_open: "\<not> is_closed example_state"
  by (simp add: example_state_def GeometryManager_ctor_def)

lemma example_close: "fst (close_geometry example_conv example_files example_state) = Inr ()"
  by code_simp

lemma example_close_eq:
  "close_geometry example_conv example_files example_state = (Inr (), example_closed)"
  using example_close unfolding example_closed_def by (simp add: prod_eq_iff)

lemma example_closed_is_closed: "is_closed example_closed"
  using close_geometry_closed [OF example_close_eq] .

lemma example_closed_detectors: "detectors example_closed = [0, 1, 2]"
  by code_simp

text \<open>
  C7. On a closed manager \<^verbatim>\<open>addPoint\<close>, \<^verbatim>\<open>addModel\<close> and \<^verbatim>\<open>addDetector\<close> raise
  \<^verbatim>\<open>ModuleError\<close>, whatever they are passed. On an open manager \<^verbatim>\<open>addModel\<close> and
  \<^verbatim>\<open>addDetector\<close> raise \<^verbatim>\<open>InvalidModuleActionException\<close> for a null pointer
  (\<^verbatim>\<open>addPoint\<close> takes its point by value), \<^verbatim>\<open>addDetector\<close> raises
  \<^verbatim>\<open>DetectorInvalidNameError\<close> for a detector named \<open>global\<close> and
  \<^verbatim>\<open>DetectorExistsError\<close> for a name that is registered, and \<^verbatim>\<open>addModel\<close> raises
  \<^verbatim>\<open>DetectorModelExistsError\<close> for a type that is registered. Whenever one of the
  three raises, the state of the manager is the one before the call.
\<close>

theorem add_rejected:
  "(is_closed s \<longrightarrow>
      addPoint point s = (Inl (ModuleError ''Geometry is already closed before adding detector''), s)
      \<and> addModel model s = (Inl (ModuleError ''Geometry is already closed before adding detector''), s)
      \<and> addDetector detector s = (Inl (ModuleError ''Geometry is already closed before adding detector''), s))
   \<and> (\<not> is_closed s \<longrightarrow>
      addModel None s = (Inl (InvalidModuleActionException ''Added model cannot be a null pointer''), s)
      \<and> addDetector None s = (Inl (InvalidModuleActionException ''Added detector cannot be a null pointer''), s))
   \<and> (\<not> is_closed s \<and> deref a s = Some d \<and> det_name d = ''global'' \<longrightarrow>
      addDetector (Some a) s = (Inl (DetectorInvalidNameError ''global''), s))
   \<and> (\<not> is_closed s \<and> deref a s = Some d \<and> det_name d \<noteq> ''global'' \<and> hasDetector (det_name d) s \<longrightarrow>
      addDetector (Some a) s = (Inl (DetectorExistsError (det_name d)), s))
   \<and> (\<not> is_closed s \<and> hasModel (getType (model_obj mi)) s \<longrightarrow>
      addModel (Some mi) s = (Inl (DetectorModelExistsError (getType (model_obj mi))), s))
   \<and> (\<forall>e s'. addPoint point s = (Inl e, s') \<or> addModel model s = (Inl e, s')
          \<or> addDetector detector s = (Inl e, s') \<longrightarrow> s' = s)"
  by (auto simp: addPoint_def addModel_def addDetector_def hasDetector_def hasModel_def
           split: option.splits if_splits)


theorem add_rejected_witness:
  "is_closed example_closed
   \<and> addPoint (XYZVector 0 0 0) example_closed
       = (Inl (ModuleError ''Geometry is already closed before adding detector''), example_closed)
   \<and> \<not> is_closed example_state
   \<and> addModel None example_state
       = (Inl (InvalidModuleActionException ''Added model cannot be a null pointer''), example_state)
   \<and> deref 0 example_state = Some (example_detector ''d0'')
   \<and> det_name (example_detector ''d0'') \<noteq> ''global''
   \<and> hasDetector (det_name (example_detector ''d0'')) example_state
   \<and> addDetector (Some 0) example_state
       = (Inl (DetectorExistsError (det_name (example_detector ''d0''))), example_state)"
proof -
  have d: "deref 0 example_state = Some (example_detector ''d0'')"
    by (simp add: deref_def example_state_def)
  have n: "det_name (example_detector ''d0'') \<noteq> ''global''"
    by (simp add: example_detector_def)
  have h: "hasDetector (det_name (example_detector ''d0'')) example_state"
    by (simp add: hasDetector_def example_state_def example_detector_def)
  have c: "addPoint (XYZVector 0 0 0) example_closed
       = (Inl (ModuleError ''Geometry is already closed before adding detector''), example_closed)"
    using add_rejected [where s = example_closed and point = "XYZVector 0 0 0"]
      example_closed_is_closed by simp
  have m: "addModel None example_state
       = (Inl (InvalidModuleActionException ''Added model cannot be a null pointer''), example_state)"
    using add_rejected [where s = example_state] example_state_open by simp
  have a: "addDetector (Some 0) example_state
       = (Inl (DetectorExistsError (det_name (example_detector ''d0''))), example_state)"
    using add_rejected [where s = example_state and a = 0 and d = "example_detector ''d0''"]
      example_state_open d n h by simp
  show ?thesis
    by (intro conjI example_closed_is_closed c example_state_open m d n h a)
qed

text \<open>
  C8. On a closed manager every accessor that closes the geometry leaves the whole
  state as it is, the closed flag, the registries and the allocated models included,
  and \<^verbatim>\<open>getDetectors\<close> returns the registered detectors. A call of
  \<^verbatim>\<open>getDetectors\<close> that returns leaves a closed manager, on which a second call
  returns the same list and the same state.
\<close>

theorem closing_idempotent:
  "(is_closed s \<longrightarrow>
     getDetectors conv files s = (Inr (detectors s), s)
     \<and> snd (getDetector conv files name s) = s
     \<and> snd (getDetectorsByType conv files detector_type type s) = s
     \<and> snd (getMinimumCoordinate conv files s) = s
     \<and> snd (getMaximumCoordinate conv files s) = s
     \<and> close_if_open conv files s = (Inr (), s))
   \<and> (getDetectors conv files s = (Inr ds, s') \<longrightarrow>
        is_closed s' \<and> getDetectors conv files s' = (Inr ds, s'))"
  by (auto simp: getDetectors_def getDetector_def getDetectorsByType_def getMinimumCoordinate_def
        getMaximumCoordinate_def close_if_open_idle
        dest: close_if_open_closed split: sum.splits prod.splits)

lemma example_getDetectors:
  "getDetectors example_conv example_files example_state = (Inr [0, 1, 2], example_closed)"
  by (simp add: getDetectors_def close_if_open_def example_state_open example_close_eq
        example_closed_detectors)

theorem closing_idempotent_witness:
  "is_closed example_closed
   \<and> getDetectors example_conv example_files example_closed
       = (Inr (detectors example_closed), example_closed)
   \<and> getDetectors example_conv example_files example_state = (Inr [0, 1, 2], example_closed)
   \<and> getDetectors example_conv example_files example_closed = (Inr [0, 1, 2], example_closed)"
proof -
  have 1: "getDetectors example_conv example_files example_closed
       = (Inr (detectors example_closed), example_closed)"
    using closing_idempotent [where s = example_closed and conv = example_conv and files = example_files]
      example_closed_is_closed by simp
  have 2: "getDetectors example_conv example_files example_closed = (Inr [0, 1, 2], example_closed)"
    using closing_idempotent [where s = example_state and conv = example_conv and files = example_files
        and ds = "[0, 1, 2]" and s' = example_closed]
      example_getDetectors by simp
  show ?thesis
    using example_closed_is_closed 1 2 example_getDetectors by simp
qed

text \<open>
  C6, as stated, fails: \<^verbatim>\<open>getModels\<close> on an open manager leaves it open.
\<close>

theorem getModels_open_counterexample:
  "\<not> is_closed GeometryManager_ctor
   \<and> getModels GeometryManager_ctor = (Inr [], GeometryManager_ctor)
   \<and> \<not> is_closed (snd (getModels GeometryManager_ctor))"
  by (simp add: getModels_def GeometryManager_ctor_def)

text \<open>
  C6, amended. The accessors that return a list of detectors, \<^verbatim>\<open>getDetectors\<close> and
  \<^verbatim>\<open>getDetectorsByType\<close>, run \<^verbatim>\<open>close_geometry\<close> on an open manager: when such a
  call returns, the manager is closed, and when the closing raises, the call raises the
  same error. \<^verbatim>\<open>getModels\<close> returns the registered models and leaves the state, the
  closed flag included, as it is.
\<close>

theorem list_accessors_closing:
  "(getDetectors conv files s = (Inr ds, s') \<longrightarrow> is_closed s' \<and> ds = detectors s')
   \<and> (getDetectorsByType conv files detector_type type s = (Inr ds, s') \<longrightarrow> is_closed s')
   \<and> (\<not> is_closed s \<longrightarrow>
        getDetectors conv files s =
          (case close_geometry conv files s of
             (Inl e, s1) \<Rightarrow> (Inl e, s1) | (Inr u, s1) \<Rightarrow> (Inr (detectors s1), s1)))
   \<and> (\<not> is_closed s \<and> fst (close_geometry conv files s) = Inl e \<longrightarrow>
        getDetectorsByType conv files detector_type type s = (Inl e, snd (close_geometry conv files s)))
   \<and> getModels s = (Inr (models s), s)"
  by (auto simp: getDetectors_def getDetectorsByType_def getModels_def close_if_open_def
           dest: close_geometry_closed split: sum.splits prod.splits if_splits)

theorem list_accessors_closing_witness:
  "\<not> is_closed example_state
   \<and> getDetectors example_conv example_files example_state = (Inr [0, 1, 2], example_closed)
   \<and> is_closed example_closed \<and> [0, 1, 2] = detectors example_closed
   \<and> getModels example_state = (Inr (models example_state), example_state)"
proof -
  have 1: "is_closed example_closed \<and> [0, 1, 2] = detectors example_closed"
    using list_accessors_closing [where s = example_state and conv = example_conv
        and files = example_files and ds = "[0, 1, 2]" and s' = example_closed]
      example_getDetectors by simp
  have 2: "getModels example_state = (Inr (models example_state), example_state)"
    using list_accessors_closing [where s = example_state] by simp
  show ?thesis
    using example_state_open example_getDetectors 1 2 by simp
qed

section \<open>The bounding box of the geometry contains the origin\<close>

lemma coord_lower_point: "coord a (lower_point p acc) = min (coord a p) (coord a acc)"
  by (cases a) (simp_all add: lower_point_def min.commute)

lemma coord_upper_point: "coord a (upper_point p acc) = max (coord a p) (coord a acc)"
  by (cases a) (simp_all add: upper_point_def max.commute)

lemma fold_lower_point:
  "coord a (fold lower_point ps acc) = fold min (map (coord a) ps) (coord a acc)"
  by (induction ps arbitrary: acc) (simp_all add: coord_lower_point)

lemma fold_upper_point:
  "coord a (fold upper_point ps acc) = fold max (map (coord a) ps) (coord a acc)"
  by (induction ps arbitrary: acc) (simp_all add: coord_upper_point)

lemma fold_corners:
  "fold (\<lambda>i. upd (g i)) is acc = fold upd (map g is) acc"
  by (simp add: fold_map comp_def)

lemma fold_detectors_lower:
  "fold_detectors lower_point ds s acc = Inr p \<Longrightarrow>
   coord a p = fold min (map (coord a) (concat (map (detector_corners s) ds))) (coord a acc)"
proof (induction ds arbitrary: acc)
  case Nil
  then show ?case by simp
next
  case (Cons d ds)
  from Cons.prems obtain dd model where dd: "deref d s = Some dd" and m: "det_model dd = Some model"
    and rest: "fold_detectors lower_point ds s
        (fold lower_point (map (\<lambda>i. getGlobalPosition dd (box_corner (model_obj model) i)) [0..<8]) acc) = Inr p"
    unfolding fold_corners [symmetric]
    by (auto simp del: upt_rec_numeral upt.simps split: option.splits)
  have c: "detector_corners s d = map (\<lambda>i. getGlobalPosition dd (box_corner (model_obj model) i)) [0..<8]"
    by (simp add: detector_corners_def dd m del: upt_rec_numeral upt.simps)
  show ?case
    using Cons.IH [OF rest] by (simp add: c fold_lower_point del: upt_rec_numeral upt.simps)
qed

lemma fold_detectors_upper:
  "fold_detectors upper_point ds s acc = Inr p \<Longrightarrow>
   coord a p = fold max (map (coord a) (concat (map (detector_corners s) ds))) (coord a acc)"
proof (induction ds arbitrary: acc)
  case Nil
  then show ?case by simp
next
  case (Cons d ds)
  from Cons.prems obtain dd model where dd: "deref d s = Some dd" and m: "det_model dd = Some model"
    and rest: "fold_detectors upper_point ds s
        (fold upper_point (map (\<lambda>i. getGlobalPosition dd (box_corner (model_obj model) i)) [0..<8]) acc) = Inr p"
    unfolding fold_corners [symmetric]
    by (auto simp del: upt_rec_numeral upt.simps split: option.splits)
  have c: "detector_corners s d = map (\<lambda>i. getGlobalPosition dd (box_corner (model_obj model) i)) [0..<8]"
    by (simp add: detector_corners_def dd m del: upt_rec_numeral upt.simps)
  show ?case
    using Cons.IH [OF rest] by (simp add: c fold_upper_point del: upt_rec_numeral upt.simps)
qed

lemma getMinimumCoordinate_Min:
  assumes "getMinimumCoordinate conv files s = (Inr p, s')"
  shows "coord a p = Min (set (0 # map (coord a) (geometry_points s')))"
proof -
  from assms obtain mp where s': "close_if_open conv files s = (Inr (), s')"
    and mp: "fold_detectors lower_point (detectors s') s' (XYZVector 0 0 0) = Inr mp"
    and p: "p = fold lower_point (points s') mp"
    by (auto simp: getMinimumCoordinate_def split: prod.splits sum.splits)
  have z: "coord a (XYZVector 0 0 0) = 0" by (cases a) simp_all
  have "coord a p = fold min (map (coord a) (geometry_points s')) 0"
    using fold_detectors_lower [OF mp, of a]
    by (simp add: p fold_lower_point geometry_points_def z)
  then show ?thesis
    by (simp only: Min.set_eq_fold)
qed

lemma getMaximumCoordinate_Max:
  assumes "getMaximumCoordinate conv files s = (Inr p, s')"
  shows "coord a p = Max (set (0 # map (coord a) (geometry_points s')))"
proof -
  from assms obtain mp where s': "close_if_open conv files s = (Inr (), s')"
    and mp: "fold_detectors upper_point (detectors s') s' (XYZVector 0 0 0) = Inr mp"
    and p: "p = fold upper_point (points s') mp"
    by (auto simp: getMaximumCoordinate_def split: prod.splits sum.splits)
  have z: "coord a (XYZVector 0 0 0) = 0" by (cases a) simp_all
  have "coord a p = fold max (map (coord a) (geometry_points s')) 0"
    using fold_detectors_upper [OF mp, of a]
    by (simp add: p fold_upper_point geometry_points_def z)
  then show ?thesis
    by (simp only: Max.set_eq_fold)
qed

lemma parse_models_not_needed:
  "nonresolved_models s = [] \<Longrightarrow> parse_models conv readers s = (Inr (), s)"
  by (induction readers) (simp_all add: needsModel_def)

lemma close_geometry_nothing_pending:
  "nonresolved_models s = [] \<Longrightarrow> close_geometry conv files s = (Inr (), s\<lparr>is_closed := True\<rparr>)"
  by (simp add: close_geometry_def load_models_def parse_models_not_needed)

lemma close_if_open_nothing_pending:
  assumes "is_closed s \<or> nonresolved_models s = []"
  shows "\<exists>s'. close_if_open conv files s = (Inr (), s') \<and> detectors s' = detectors s \<and> points s' = points s"
  using assms by (auto simp: close_if_open_def close_geometry_nothing_pending)

lemma upt_8: "[0..<8] = [0, 1, 2, 3, 4, 5, 6, 7]"
  by code_simp

lemma example_placed_min:
  "getMinimumCoordinate conv files example_placed = (Inr (XYZVector (- 7) 0 (- (17 / 8))), example_placed)"
  by (simp add: getMinimumCoordinate_def close_if_open_def example_placed_def GeometryManager_ctor_def
        deref_def example_detector_def upt_8 getGlobalPosition_def box_corner_def
        example_center example_size offset_x_def offset_y_def offset_z_def
        SetX_def SetY_def SetZ_def xyz_add_def lower_point_def fadd_def fmul_def fdiv_def doubles)

lemma example_placed_max:
  "getMaximumCoordinate conv files example_placed = (Inr (XYZVector (33 / 16) (49 / 16) (65 / 8)), example_placed)"
  by (simp add: getMaximumCoordinate_def close_if_open_def example_placed_def GeometryManager_ctor_def
        deref_def example_detector_def upt_8 getGlobalPosition_def box_corner_def
        example_center example_size offset_x_def offset_y_def offset_z_def
        SetX_def SetY_def SetZ_def xyz_add_def upper_point_def fadd_def fmul_def fdiv_def doubles)


text \<open>
  C9. Along every axis \<open>a\<close>, the point \<^verbatim>\<open>getMinimumCoordinate()\<close> returns is the
  least of 0, the eight transformed corners of the box of every detector and the
  added points, hence at most 0; the point \<^verbatim>\<open>getMaximumCoordinate()\<close> returns is
  the greatest of them, hence at least 0. For a geometry with no detector and no point
  (closed, or with nothing pending) both return the origin.
\<close>

theorem bounding_box_contains_origin:
  "(getMinimumCoordinate conv files s = (Inr p, s') \<longrightarrow>
      coord a p = Min (set (0 # map (coord a) (geometry_points s'))) \<and> coord a p \<le> 0)
   \<and> (getMaximumCoordinate conv files s = (Inr q, s'') \<longrightarrow>
      coord a q = Max (set (0 # map (coord a) (geometry_points s''))) \<and> 0 \<le> coord a q)
   \<and> (detectors s = [] \<and> points s = [] \<and> (is_closed s \<or> nonresolved_models s = []) \<longrightarrow>
      fst (getMinimumCoordinate conv files s) = Inr (XYZVector 0 0 0)
      \<and> fst (getMaximumCoordinate conv files s) = Inr (XYZVector 0 0 0))"
proof (intro conjI impI)
  assume r: "getMinimumCoordinate conv files s = (Inr p, s')"
  show "coord a p = Min (set (0 # map (coord a) (geometry_points s')))"
    by (rule getMinimumCoordinate_Min [OF r])
  then show "coord a p \<le> 0" by simp
next
  assume r: "getMaximumCoordinate conv files s = (Inr q, s'')"
  show "coord a q = Max (set (0 # map (coord a) (geometry_points s'')))"
    by (rule getMaximumCoordinate_Max [OF r])
  then show "0 \<le> coord a q" by simp
next
  assume e: "detectors s = [] \<and> points s = [] \<and> (is_closed s \<or> nonresolved_models s = [])"
  then obtain s1 where "close_if_open conv files s = (Inr (), s1)" "detectors s1 = []" "points s1 = []"
    using close_if_open_nothing_pending [of s conv files] by auto
  then show "fst (getMinimumCoordinate conv files s) = Inr (XYZVector 0 0 0)"
    and "fst (getMaximumCoordinate conv files s) = Inr (XYZVector 0 0 0)"
    by (simp_all add: getMinimumCoordinate_def getMaximumCoordinate_def)
qed

theorem bounding_box_contains_origin_witness:
  "getMinimumCoordinate example_conv example_files example_placed
     = (Inr (XYZVector (- 7) 0 (- 17 / 8)), example_placed)
   \<and> coord AxisZ (XYZVector (- 7) 0 (- 17 / 8))
       = Min (set (0 # map (coord AxisZ) (geometry_points example_placed)))
   \<and> coord AxisZ (XYZVector (- 7) 0 (- 17 / 8)) \<le> 0
   \<and> getMaximumCoordinate example_conv example_files example_placed
     = (Inr (XYZVector (33 / 16) (49 / 16) (65 / 8)), example_placed)
   \<and> coord AxisZ (XYZVector (33 / 16) (49 / 16) (65 / 8))
       = Max (set (0 # map (coord AxisZ) (geometry_points example_placed)))
   \<and> 0 \<le> coord AxisZ (XYZVector (33 / 16) (49 / 16) (65 / 8))
   \<and> detectors GeometryManager_ctor = [] \<and> points GeometryManager_ctor = []
   \<and> nonresolved_models GeometryManager_ctor = []
   \<and> fst (getMinimumCoordinate example_conv example_files GeometryManager_ctor) = Inr (XYZVector 0 0 0)
   \<and> fst (getMaximumCoordinate example_conv example_files GeometryManager_ctor) = Inr (XYZVector 0 0 0)"
proof -
  note mn = example_placed_min [of example_conv example_files]
  note mx = example_placed_max [of example_conv example_files]
  have e: "detectors GeometryManager_ctor = []" "points GeometryManager_ctor = []"
    "nonresolved_models GeometryManager_ctor = []"
    by (simp_all add: GeometryManager_ctor_def)
  note box = bounding_box_contains_origin [where conv = example_conv and files = example_files
      and a = AxisZ]
  have 1: "coord AxisZ (XYZVector (- 7) 0 (- 17 / 8))
       = Min (set (0 # map (coord AxisZ) (geometry_points example_placed)))
     \<and> coord AxisZ (XYZVector (- 7) 0 (- 17 / 8)) \<le> 0"
    using box [where s = example_placed and p = "XYZVector (- 7) 0 (- 17 / 8)" and s' = example_placed]
      mn by simp
  have 2: "coord AxisZ (XYZVector (33 / 16) (49 / 16) (65 / 8))
       = Max (set (0 # map (coord AxisZ) (geometry_points example_placed)))
     \<and> 0 \<le> coord AxisZ (XYZVector (33 / 16) (49 / 16) (65 / 8))"
    using box [where s = example_placed and q = "XYZVector (33 / 16) (49 / 16) (65 / 8)" and s'' = example_placed]
      mx by simp
  have 3: "fst (getMinimumCoordinate example_conv example_files GeometryManager_ctor) = Inr (XYZVector 0 0 0)
     \<and> fst (getMaximumCoordinate example_conv example_files GeometryManager_ctor) = Inr (XYZVector 0 0 0)"
    using box [where s = GeometryManager_ctor] e by simp
  show ?thesis
    using mn mx 1 2 3 e by simp
qed


section \<open>The models the closing assigns\<close>

subsection \<open>Configurations and the constructor\<close>

lemma bindE_Inr_iff: "bindE r f = Inr v \<longleftrightarrow> (\<exists>x. r = Inr x \<and> f x = Inr v)"
  by (cases r) (simp_all add: bindE_def)

lemma bindE_InrE:
  assumes "bindE r f = Inr v"
  obtains x where "r = Inr x" and "f x = Inr v"
  using assms by (auto simp: bindE_Inr_iff)

lemma addSupportLayer_keeps:
  "reader (addSupportLayer sz t off mat loc hs ho m) = reader m"
  "model_type (addSupportLayer sz t off mat loc hs ho m) = model_type m"
  by (simp_all add: addSupportLayer_def Let_def)

lemma read_support_keeps:
  assumes "read_support conv c m = Inr m'"
  shows "reader m' = reader m \<and> model_type m' = model_type m"
proof -
  from assms obtain sz t off mat loc hs ho where "m' = addSupportLayer sz t off mat loc hs ho m"
    unfolding read_support_def Let_def
    by (elim bindE_InrE) (auto split: if_splits elim!: bindE_InrE)
  then show ?thesis by (simp add: addSupportLayer_keeps)
qed

lemma read_supports_keeps:
  "read_supports conv cs m = Inr m' \<Longrightarrow> reader m' = reader m \<and> model_type m' = model_type m"
proof (induction cs arbitrary: m)
  case Nil
  then show ?case by simp
next
  case (Cons c cs)
  then obtain m1 where "read_support conv c m = Inr m1" "read_supports conv cs m1 = Inr m'"
    by (auto simp: bindE_Inr_iff)
  then show ?case
    using Cons.IH [of m1] read_support_keeps [of conv c m m1] by simp
qed

lemma DetectorModel_ctor_keeps:
  assumes "DetectorModel_ctor conv type rd = Inr m"
  shows "reader m = rd \<and> model_type m = type"
proof -
  from assms obtain m0 where "read_supports conv (getConfigurations_named ''support'' rd) m0 = Inr m"
    and "reader m0 = rd" and "model_type m0 = type"
    unfolding DetectorModel_ctor_def Let_def bindE_Inr_iff by auto
  then show ?thesis
    using read_supports_keeps by fastforce
qed

lemma parse_config_Inr:
  assumes "parse_config conv name rd s = (Inr mi, s')"
  shows "model_id mi = next_model_id s \<and> s' = s\<lparr>next_model_id := Suc (next_model_id s)\<rparr>
         \<and> DetectorModel_ctor conv name rd = Inr (model_obj mi)"
  using assms
  by (auto simp: parse_config_def make_shared_def Let_def split: sum.splits if_splits)

lemma merge_fold: "merge other c = fold merge_step (cfg_map other) c"
  by (simp add: merge_def merge_step_def [abs_def])

lemma merge_name: "cfg_name (merge other c) = cfg_name c"
proof -
  have "cfg_name (fold merge_step kvs c) = cfg_name c" for kvs
    by (induction kvs arbitrary: c) (simp_all add: merge_step_def setText_def)
  then show ?thesis by (simp add: merge_fold)
qed

lemma merge_step_map_of:
  "map_of (cfg_map (merge_step (k, v) c)) key =
     (case map_of (cfg_map c) key of Some w \<Rightarrow> Some w | None \<Rightarrow> if key = k then Some v else None)"
  by (auto simp: merge_step_def has_def setText_def update_conv' split: option.splits)

lemma merge_map_of:
  "map_of (cfg_map (merge other c)) key =
     (case map_of (cfg_map c) key of Some v \<Rightarrow> Some v | None \<Rightarrow> map_of (cfg_map other) key)"
proof -
  have "map_of (cfg_map (fold merge_step kvs c)) key =
     (case map_of (cfg_map c) key of Some v \<Rightarrow> Some v | None \<Rightarrow> map_of kvs key)" for kvs
  proof (induction kvs arbitrary: c)
    case Nil
    then show ?case by (simp split: option.splits)
  next
    case (Cons kv kvs)
    obtain k v where kv: "kv = (k, v)" by (cases kv)
    show ?case
      by (simp add: kv Cons.IH merge_step_map_of split: option.splits)
  qed
  then show ?thesis by (simp add: merge_fold)
qed

lemma new_config_fold: "new_config config = fold overlay_step (cfg_map config) (Configuration_ctor [] [])"
  by (simp add: new_config_def overlay_step_def [abs_def] getAll_def)

lemma internal_keys_iff:
  "k \<in> internal_keys \<longleftrightarrow> k = ''type'' \<or> k = ''position'' \<or> k = ''orientation_mode'' \<or> k = ''orientation''"
  by (simp add: internal_keys_def)

lemma fold_overlay_name: "cfg_name (fold overlay_step kvs cfg) = cfg_name cfg"
  by (induction kvs arbitrary: cfg) (simp_all add: overlay_step_def setText_def)

lemma fold_overlay_keys:
  "fst ` set (cfg_map (fold overlay_step kvs cfg)) =
     fst ` set (cfg_map cfg) \<union> {k \<in> fst ` set kvs. k \<notin> internal_keys}"
proof (induction kvs arbitrary: cfg)
  case Nil
  then show ?case by simp
next
  case (Cons kv kvs)
  have "fst ` set (cfg_map (overlay_step kv cfg)) =
      fst ` set (cfg_map cfg) \<union> (if fst kv \<in> internal_keys then {} else {fst kv})"
    unfolding internal_keys_iff by (auto simp: overlay_step_def setText_def dom_update)
  then show ?case
    using Cons.IH [of "overlay_step kv cfg"] by auto
qed

lemma overlay_step_map_of:
  "map_of (cfg_map (overlay_step (k, v) cfg)) key =
     (if k \<notin> internal_keys \<and> key = k then Some v else map_of (cfg_map cfg) key)"
  unfolding internal_keys_iff by (auto simp: overlay_step_def setText_def update_conv')

lemma fold_overlay_map_of:
  "distinct (map fst kvs) \<Longrightarrow>
   map_of (cfg_map (fold overlay_step kvs cfg)) key =
     (if key \<in> internal_keys then map_of (cfg_map cfg) key
      else case map_of kvs key of Some v \<Rightarrow> Some v | None \<Rightarrow> map_of (cfg_map cfg) key)"
proof (induction kvs arbitrary: cfg)
  case Nil
  then show ?case by simp
next
  case (Cons kv kvs)
  obtain k v where kv: "kv = (k, v)" by (cases kv)
  from Cons.prems have d: "distinct (map fst kvs)" and nk: "map_of kvs k = None"
    by (auto simp: kv map_of_eq_None_iff)
  show ?case
    unfolding kv using Cons.IH [OF d, of "overlay_step (k, v) cfg"] nk
    by (auto simp: overlay_step_map_of split: option.splits)
qed

lemma new_config_name: "cfg_name (new_config config) = []"
  by (simp add: new_config_fold fold_overlay_name Configuration_ctor_def)

lemma new_config_map_of:
  "distinct (map fst (cfg_map config)) \<Longrightarrow>
   map_of (cfg_map (new_config config)) key =
     (if key \<in> internal_keys then None else map_of (cfg_map config) key)"
  by (simp add: new_config_fold fold_overlay_map_of Configuration_ctor_def split: option.splits)

lemma new_config_empty_iff:
  "countSettings (new_config config) = 0 \<longleftrightarrow> extra_keys config = []"
proof -
  have "countSettings (new_config config) = 0 \<longleftrightarrow> fst ` set (cfg_map (new_config config)) = {}"
    by (simp add: countSettings_def)
  also have "\<dots> \<longleftrightarrow> {k \<in> fst ` set (cfg_map config). k \<notin> internal_keys} = {}"
    by (simp add: new_config_fold fold_overlay_keys Configuration_ctor_def)
  also have "\<dots> \<longleftrightarrow> extra_keys config = []"
    by (auto simp: extra_keys_def filter_empty_conv)
  finally show ?thesis .
qed

subsection \<open>The sections of a model and the header of a specialized reader\<close>

lemma fold_merge_name: "cfg_name (fold merge cs h) = cfg_name h"
  by (induction cs arbitrary: h) (simp_all add: merge_name)

lemma getHeaderConfiguration_name: "cfg_name (getHeaderConfiguration rd) = []"
proof (cases "getConfigurations_named [] rd")
  case Nil
  then show ?thesis by (simp add: getHeaderConfiguration_def Configuration_ctor_def)
next
  case (Cons h cs)
  then have "h \<in> set (filter (\<lambda>c. getName c = []) rd)"
    by (simp add: getConfigurations_named_def)
  then have "cfg_name h = []" by (simp add: getName_def)
  then show ?thesis by (simp add: getHeaderConfiguration_def Cons fold_merge_name)
qed

lemma getConfigurations_fold:
  "getConfigurations m =
     fst (fold collect_step (reader m) (getHeaderConfiguration (reader m), []))
     # snd (fold collect_step (reader m) (getHeaderConfiguration (reader m), []))"
  by (simp add: getConfigurations_def collect_step_def [abs_def] Let_def)

lemma fold_collect_step:
  "cfg_name (fst (fold collect_step rd (g, cs))) = cfg_name g
   \<and> snd (fold collect_step rd (g, cs)) = cs @ filter (\<lambda>c. getName c \<noteq> []) rd"
  by (induction rd arbitrary: g cs) (simp_all add: collect_step_def merge_name)

lemma getConfigurations_shape:
  "cfg_name (hd (getConfigurations m)) = []
   \<and> getConfigurations m = hd (getConfigurations m) # tl (getConfigurations m)
   \<and> filter (\<lambda>c. getName c = []) (tl (getConfigurations m)) = []"
  using fold_collect_step [of "reader m" "getHeaderConfiguration (reader m)" "[]"]
  by (simp add: getConfigurations_fold getHeaderConfiguration_name filter_empty_conv)

lemma fold_addConfiguration: "fold addConfiguration cs rd = rd @ cs"
  by (induction cs arbitrary: rd) (simp_all add: addConfiguration_def)

lemma specialized_header:
  "map_of (cfg_map (getHeaderConfiguration (new_config config # getConfigurations m))) key =
     (case map_of (cfg_map (new_config config)) key of
        Some v \<Rightarrow> Some v
      | None \<Rightarrow> map_of (cfg_map (hd (getConfigurations m))) key)"
proof -
  obtain g named where gc: "getConfigurations m = g # named" and g: "cfg_name g = []"
    and named: "filter (\<lambda>c. getName c = []) named = []"
    using getConfigurations_shape [of m] by metis
  have "getConfigurations_named [] (new_config config # getConfigurations m) = [new_config config, g]"
    by (simp add: getConfigurations_named_def gc getName_def new_config_name g)
       (use named in \<open>simp add: getName_def\<close>)
  then have "getHeaderConfiguration (new_config config # getConfigurations m) = merge g (new_config config)"
    by (simp add: getHeaderConfiguration_def)
  moreover have "hd (getConfigurations m) = g" by (simp add: gc)
  ultimately show ?thesis
    by (simp add: merge_map_of split: option.splits)
qed

lemma getModel_cong: "models s' = models s \<Longrightarrow> getModel type s' = getModel type s"
  by (simp add: getModel_def)

lemma getModel_in_models: "getModel type s = Inr model \<Longrightarrow> model \<in> set (models s)"
  by (auto simp: getModel_def find_Some_iff split: option.splits)

lemma resolve_detector_Inr:
  assumes "resolve_detector conv type (config, d) s = (Inr u, s')"
  shows "\<exists>generic mi.
           getModel type s = Inr generic \<and> d < length (detector_heap s)
           \<and> same_registry s s'
           \<and> detector_heap s' = (detector_heap s)[d := set_model mi (detector_heap s ! d)]
           \<and> (if extra_keys config = [] then mi = generic \<and> next_model_id s' = next_model_id s
               else model_id mi = next_model_id s \<and> next_model_id s' = Suc (next_model_id s)
                    \<and> DetectorModel_ctor conv type (new_config config # getConfigurations (model_obj generic))
                        = Inr (model_obj mi))"
proof -
  from assms obtain generic where g: "getModel type s = Inr generic"
    by (auto simp: resolve_detector_def split: sum.splits)
  show ?thesis
  proof (cases "extra_keys config = []")
    case True
    then have "countSettings (new_config config) = 0" by (simp add: new_config_empty_iff)
    with assms g show ?thesis
      by (auto simp: resolve_detector_def deref_def same_registry_def True split: if_splits)
  next
    case False
    then have n: "countSettings (new_config config) \<noteq> 0" by (simp add: new_config_empty_iff)
    from assms g n obtain mi s1 dd where
      p: "parse_config conv type (new_config config # getConfigurations (model_obj generic)) s = (Inr mi, s1)"
      and dd: "deref d s1 = Some dd"
      and s': "s' = s1\<lparr>detector_heap := (detector_heap s1)[d := set_model mi dd]\<rparr>"
      by (auto simp: resolve_detector_def fold_addConfiguration addConfiguration_def
            split: sum.splits prod.splits option.splits)
    note pc = parse_config_Inr [OF p]
    from dd pc s' show ?thesis
      by (auto simp: g deref_def same_registry_def False split: if_splits)
  qed
qed

subsection \<open>The loops of the closing\<close>

lemma same_registry_trans:
  "same_registry s s1 \<Longrightarrow> same_registry s1 s2 \<Longrightarrow> same_registry s s2"
  by (simp add: same_registry_def)

lemma resolved_id:
  assumes "resolved conv s s' p" "extra_keys (fst (snd p)) \<noteq> []"
  shows "\<exists>i. assigned_id s' p = Some i \<and> next_model_id s \<le> i \<and> i < next_model_id s'"
  using assms by (auto simp: resolved_def assigned_id_def)

lemma resolve_pending_Inr:
  assumes "resolve_pending conv ps s = (Inr u, s')"
    and "distinct (map (\<lambda>p. snd (snd p)) ps)"
  shows "same_registry s s' \<and> next_model_id s \<le> next_model_id s'
     \<and> length (detector_heap s') = length (detector_heap s)
     \<and> (\<forall>a. a \<notin> set (map (\<lambda>p. snd (snd p)) ps) \<longrightarrow> detector_heap s' ! a = detector_heap s ! a)
     \<and> (\<forall>p \<in> set ps. resolved conv s s' p)
     \<and> (\<forall>p \<in> set ps. \<forall>q \<in> set ps.
          snd (snd p) \<noteq> snd (snd q) \<and> extra_keys (fst (snd p)) \<noteq> [] \<and> extra_keys (fst (snd q)) \<noteq> []
          \<longrightarrow> assigned_id s' p \<noteq> assigned_id s' q)"
  using assms
proof (induction ps arbitrary: s)
  case Nil
  then show ?case by (simp add: same_registry_def)
next
  case (Cons p ps)
  obtain t c d where p: "p = (t, c, d)" by (cases p)
  from Cons.prems(1) obtain u1 s1 where
    step: "resolve_detector conv t (c, d) s = (Inr u1, s1)"
    and rest: "resolve_pending conv ps s1 = (Inr u, s')"
    by (auto simp: p split: prod.splits sum.splits)
  from Cons.prems(2) have dist: "distinct (map (\<lambda>p. snd (snd p)) ps)"
    and dnew: "d \<notin> set (map (\<lambda>p. snd (snd p)) ps)"
    by (simp_all add: p)
  from resolve_detector_Inr [OF step] obtain generic mi where
    g: "getModel t s = Inr generic" and dl: "d < length (detector_heap s)"
    and reg1: "same_registry s s1"
    and heap1: "detector_heap s1 = (detector_heap s)[d := set_model mi (detector_heap s ! d)]"
    and kind: "if extra_keys c = [] then mi = generic \<and> next_model_id s1 = next_model_id s
               else model_id mi = next_model_id s \<and> next_model_id s1 = Suc (next_model_id s)
                    \<and> DetectorModel_ctor conv t (new_config c # getConfigurations (model_obj generic))
                        = Inr (model_obj mi)"
    by blast
  note IH = Cons.IH [OF rest dist]
  from IH have reg2: "same_registry s1 s'" and nxt2: "next_model_id s1 \<le> next_model_id s'"
    and len2: "length (detector_heap s') = length (detector_heap s1)"
    and other2: "\<And>a. a \<notin> set (map (\<lambda>p. snd (snd p)) ps) \<Longrightarrow> detector_heap s' ! a = detector_heap s1 ! a"
    and res2: "\<And>q. q \<in> set ps \<Longrightarrow> resolved conv s1 s' q"
    and inj2: "\<And>q r. q \<in> set ps \<Longrightarrow> r \<in> set ps \<Longrightarrow> snd (snd q) \<noteq> snd (snd r) \<Longrightarrow>
        extra_keys (fst (snd q)) \<noteq> [] \<Longrightarrow> extra_keys (fst (snd r)) \<noteq> [] \<Longrightarrow>
        assigned_id s' q \<noteq> assigned_id s' r"
    by blast+
  have nxt1: "next_model_id s \<le> next_model_id s1"
    using kind by (auto split: if_splits)
  have reg: "same_registry s s'"
    using reg1 reg2 by (rule same_registry_trans)
  have nxt: "next_model_id s \<le> next_model_id s'"
    using nxt1 nxt2 by simp
  have len: "length (detector_heap s') = length (detector_heap s)"
    using len2 heap1 by simp
  have other: "\<forall>a. a \<notin> set (map (\<lambda>p. snd (snd p)) (p # ps)) \<longrightarrow> detector_heap s' ! a = detector_heap s ! a"
  proof (intro allI impI)
    fix a assume a: "a \<notin> set (map (\<lambda>p. snd (snd p)) (p # ps))"
    then have "a \<noteq> d" and "a \<notin> set (map (\<lambda>p. snd (snd p)) ps)" by (simp_all add: p)
    then show "detector_heap s' ! a = detector_heap s ! a"
      using other2 [of a] heap1 by simp
  qed
  have at_d: "det_model (detector_heap s' ! d) = Some mi"
    using other2 [OF dnew] heap1 dl by (simp add: set_model_def)
  have same_models: "models s1 = models s"
    using reg1 by (simp add: same_registry_def)
  have res_p: "resolved conv s s' p"
    unfolding resolved_def p
    using g dl len at_d kind nxt2
    by (auto split: if_splits)
  have res_q: "resolved conv s s' q" if q: "q \<in> set ps" for q
  proof -
    have "getModel (fst q) s1 = getModel (fst q) s"
      using same_models by (rule getModel_cong)
    then show ?thesis
      using res2 [OF q] nxt1 unfolding resolved_def
      by (auto split: if_splits)
  qed
  have id_p: "assigned_id s' p = Some (next_model_id s)" if "extra_keys c \<noteq> []"
    using at_d kind that by (simp add: assigned_id_def p)
  have id_q: "assigned_id s' q \<noteq> Some (next_model_id s)"
    if q: "q \<in> set ps" and e: "extra_keys (fst (snd q)) \<noteq> []" and ec: "extra_keys c \<noteq> []" for q
  proof -
    from resolved_id [OF res2 [OF q] e] obtain i where
      "assigned_id s' q = Some i" "next_model_id s1 \<le> i" by blast
    moreover have "next_model_id s < next_model_id s1"
      using kind ec by simp
    ultimately show ?thesis by simp
  qed
  have inj: "\<forall>q \<in> set (p # ps). \<forall>r \<in> set (p # ps).
          snd (snd q) \<noteq> snd (snd r) \<and> extra_keys (fst (snd q)) \<noteq> [] \<and> extra_keys (fst (snd r)) \<noteq> []
          \<longrightarrow> assigned_id s' q \<noteq> assigned_id s' r"
  proof (intro ballI impI)
    fix q r
    assume q: "q \<in> set (p # ps)" and r: "r \<in> set (p # ps)"
      and h: "snd (snd q) \<noteq> snd (snd r) \<and> extra_keys (fst (snd q)) \<noteq> [] \<and> extra_keys (fst (snd r)) \<noteq> []"
    consider "q = p" "r = p" | "q = p" "r \<in> set ps" | "q \<in> set ps" "r = p" | "q \<in> set ps" "r \<in> set ps"
      using q r by auto
    then show "assigned_id s' q \<noteq> assigned_id s' r"
    proof cases
      case 1
      with h show ?thesis by simp
    next
      case 2
      then show ?thesis using h id_p id_q [of r] by (simp add: p)
    next
      case 3
      then show ?thesis using h id_p id_q [of q] by (simp add: p)
    next
      case 4
      then show ?thesis using h inj2 by blast
    qed
  qed
  have res: "\<forall>q \<in> set (p # ps). resolved conv s s' q"
    using res_p res_q by simp
  show ?case
    using reg nxt len other res inj by blast
qed

lemma resolve_pending_append:
  "resolve_pending conv (ps @ qs) s =
     (case resolve_pending conv ps s of
        (Inl e, s1) \<Rightarrow> (Inl e, s1) | (Inr u, s1) \<Rightarrow> resolve_pending conv qs s1)"
  by (induction ps arbitrary: s) (auto split: prod.splits sum.splits)

lemma resolve_detectors_flat:
  "resolve_detectors conv type cds s = resolve_pending conv (map (\<lambda>cd. (type, cd)) cds) s"
  by (induction cds arbitrary: s) (auto split: prod.splits sum.splits)

lemma resolve_types_flat:
  "resolve_types conv nr s =
     resolve_pending conv
       (concat (map (\<lambda>detectors_types. map (\<lambda>cd. (fst detectors_types, cd)) (snd detectors_types)) nr)) s"
  by (induction nr arbitrary: s)
     (auto simp: resolve_pending_append resolve_detectors_flat split: prod.splits sum.splits)

lemma parse_models_Inr:
  assumes "parse_models conv readers s = (Inr u, s')"
    and "list_all (\<lambda>model. model_id model < next_model_id s) (models s)"
  shows "nonresolved_models s' = nonresolved_models s \<and> detector_heap s' = detector_heap s
     \<and> list_all (\<lambda>model. model_id model < next_model_id s') (models s')"
  using assms
proof (induction readers arbitrary: s)
  case Nil
  then show ?case by simp
next
  case (Cons nr readers)
  show ?case
  proof (cases "hasModel (fst nr) s \<or> \<not> needsModel (fst nr) s")
    case True
    with Cons.prems have "parse_models conv readers s = (Inr u, s')" by (auto split: if_splits)
    then show ?thesis using Cons.IH Cons.prems(2) by blast
  next
    case False
    with Cons.prems(1) obtain mi s1 u2 s2 where
      p: "parse_config conv (fst nr) (snd nr) s = (Inr mi, s1)"
      and a: "addModel (Some mi) s1 = (Inr u2, s2)"
      and rest: "parse_models conv readers s2 = (Inr u, s')"
      by (auto split: prod.splits sum.splits)
    note pc = parse_config_Inr [OF p]
    from a pc have s2: "nonresolved_models s2 = nonresolved_models s"
      "detector_heap s2 = detector_heap s" "models s2 = models s @ [mi]"
      "next_model_id s2 = Suc (next_model_id s)"
      by (auto simp: addModel_def split: if_splits)
    have "list_all (\<lambda>model. model_id model < next_model_id s2) (models s2)"
      using Cons.prems(2) pc by (auto simp: s2 list_all_iff less_Suc_eq)
    from Cons.IH [OF rest this] show ?thesis by (simp add: s2)
  qed
qed

lemma close_geometry_Inr:
  assumes "close_geometry conv files s = (Inr u, s')" and "wf_state s"
  shows "\<exists>s1 s2. list_all (\<lambda>model. model_id model < next_model_id s1) (models s1)
           \<and> resolve_pending conv (pending s) s1 = (Inr (), s2)
           \<and> s' = s2\<lparr>is_closed := True\<rparr>"
proof -
  from assms(1) obtain u1 s1 u2 s2 where
    l: "parse_models conv (files (getModelsPath s)) s = (Inr u1, s1)"
    and r: "resolve_types conv (nonresolved_models s1) s1 = (Inr u2, s2)"
    and s': "s' = s2\<lparr>is_closed := True\<rparr>"
    by (auto simp: close_geometry_def load_models_def split: prod.splits sum.splits)
  from assms(2) have "list_all (\<lambda>model. model_id model < next_model_id s) (models s)"
    by (simp add: wf_state_def)
  from parse_models_Inr [OF l this]
  have nr: "nonresolved_models s1 = nonresolved_models s"
    and wf1: "list_all (\<lambda>model. model_id model < next_model_id s1) (models s1)"
    by simp_all
  have "resolve_pending conv (pending s) s1 = (Inr (), s2)"
    using r by (simp add: resolve_types_flat nr pending_def)
  with wf1 s' show ?thesis by blast
qed

lemma resolved_triple:
  "resolved conv s s' (t, c, d) \<longleftrightarrow>
     (\<exists>generic mi.
        getModel t s = Inr generic \<and> d < length (detector_heap s')
        \<and> det_model (detector_heap s' ! d) = Some mi
        \<and> (if extra_keys c = [] then mi = generic
            else next_model_id s \<le> model_id mi \<and> model_id mi < next_model_id s'
                 \<and> DetectorModel_ctor conv t (new_config c # getConfigurations (model_obj generic))
                     = Inr (model_obj mi)))"
  by (simp add: resolved_def cong: if_cong)

lemma resolved_closed:
  "resolved conv s1 (s2\<lparr>is_closed := True\<rparr>) p = resolved conv s1 s2 p"
  "assigned_id (s2\<lparr>is_closed := True\<rparr>) p = assigned_id s2 p"
  by (simp_all add: resolved_def assigned_id_def)

lemma close_geometry_resolved:
  assumes c: "close_geometry conv files s = (Inr u, s')" and wf: "wf_state s"
  shows "\<exists>s1. list_all (\<lambda>model. model_id model < next_model_id s1) (models s1)
           \<and> models s' = models s1 \<and> next_model_id s1 \<le> next_model_id s'
           \<and> (\<forall>p \<in> set (pending s). resolved conv s1 s' p)
           \<and> (\<forall>p \<in> set (pending s). \<forall>q \<in> set (pending s).
                snd (snd p) \<noteq> snd (snd q) \<and> extra_keys (fst (snd p)) \<noteq> []
                \<and> extra_keys (fst (snd q)) \<noteq> []
                \<longrightarrow> assigned_id s' p \<noteq> assigned_id s' q)"
proof -
  from close_geometry_Inr [OF c wf] obtain s1 s2 where
    wf1: "list_all (\<lambda>model. model_id model < next_model_id s1) (models s1)"
    and r: "resolve_pending conv (pending s) s1 = (Inr (), s2)"
    and s': "s' = s2\<lparr>is_closed := True\<rparr>"
    by blast
  from wf have d: "distinct (map (\<lambda>p. snd (snd p)) (pending s))"
    by (simp add: wf_state_def)
  note inv = resolve_pending_Inr [OF r d]
  have m: "models s' = models s1"
    using inv by (simp add: s' same_registry_def)
  have n: "next_model_id s1 \<le> next_model_id s'"
    using inv by (simp add: s')
  have res: "\<forall>p \<in> set (pending s). resolved conv s1 s' p"
    unfolding s' resolved_closed using inv by blast
  have inj: "\<forall>p \<in> set (pending s). \<forall>q \<in> set (pending s).
                snd (snd p) \<noteq> snd (snd q) \<and> extra_keys (fst (snd p)) \<noteq> []
                \<and> extra_keys (fst (snd q)) \<noteq> []
                \<longrightarrow> assigned_id s' p \<noteq> assigned_id s' q"
    unfolding s' resolved_closed using inv by blast
  show ?thesis
    using wf1 m n res inj by blast
qed

lemma resolved_model_of:
  assumes "resolved conv s1 s' (type, config, d)"
  shows "\<exists>generic mi. getModel type s1 = Inr generic \<and> model_of s' d = Some mi
           \<and> assigned_id s' (type, config, d) = Some (model_id mi)
           \<and> (if extra_keys config = [] then mi = generic else next_model_id s1 \<le> model_id mi)"
  using assms unfolding resolved_triple
  by (auto simp: model_of_def deref_def assigned_id_def split: if_splits)

lemma example_wf: "wf_state example_state"
  by (simp add: wf_state_def pending_def example_state_def GeometryManager_ctor_def example_config_def)

lemma example_pending:
  "pending example_state =
     [(''X'', example_config ''d0'' [], 0),
      (''X'', example_config ''d1'' [(''sensor_thickness'', ''0.5'')], 1),
      (''X'', example_config ''d2'' [(''sensor_thickness'', ''0.5'')], 2)]"
  by (simp add: pending_def example_state_def GeometryManager_ctor_def)

lemma example_extra_keys:
  "extra_keys (example_config name []) = []"
  "extra_keys (example_config name [(''sensor_thickness'', v)]) = [''sensor_thickness'']"
  by (simp_all add: extra_keys_def example_config_def internal_keys_def)

lemma example_ids:
  "map_option model_id (model_of example_closed 0) = Some 0"
  "map_option model_id (model_of example_closed 1) = Some 1"
  "map_option model_id (model_of example_closed 2) = Some 2"
  by code_simp+

lemma example_thickness:
  "map_option (\<lambda>model. sensor_thickness (model_obj model)) (model_of example_closed 0) = Some (1 / 4)"
  "map_option (\<lambda>model. sensor_thickness (model_obj model)) (model_of example_closed 1) = Some (1 / 2)"
  "map_option (\<lambda>model. number_of_pixels (model_obj model)) (model_of example_closed 1)
     = map_option (\<lambda>model. number_of_pixels (model_obj model)) (model_of example_closed 0)"
  by code_simp+

text \<open>
  C4. When \<^verbatim>\<open>close_geometry\<close> returns, every pending detector holds a model. If
  the configuration of the detector has no key beyond \<open>type\<close>, \<open>position\<close>,
  \<open>orientation\<close> and \<open>orientation_mode\<close>, it is the generic model of the requested
  type, the one \<^verbatim>\<open>getModel\<close> returns. Otherwise it is a new instance: its identity
  differs from the generic model's and from every registered model's, it is
  constructed from the reader that holds the overlay first and the sections of the
  generic model after it, the overlay has exactly the extra keys with their values,
  and in the header of that reader a key of the overlay takes precedence over the same
  key of the model.
\<close>

theorem close_geometry_specializes:
  assumes "close_geometry conv files s = (Inr (), s')"
    and "wf_state s"
    and "(type, config, d) \<in> set (pending s)"
  shows "\<exists>generic mi.
           getModel type s' = Inr generic \<and> model_of s' d = Some mi
           \<and> (if extra_keys config = [] then mi = generic
               else model_id mi \<noteq> model_id generic
                    \<and> list_all (\<lambda>model. model_id model \<noteq> model_id mi) (models s')
                    \<and> DetectorModel_ctor conv type (new_config config # getConfigurations (model_obj generic))
                        = Inr (model_obj mi)
                    \<and> reader (model_obj mi) = new_config config # getConfigurations (model_obj generic)
                    \<and> (\<forall>key. map_of (cfg_map (new_config config)) key =
                          (if key \<in> internal_keys then None else map_of (cfg_map config) key))
                    \<and> (\<forall>key. map_of (cfg_map (getHeaderConfiguration (reader (model_obj mi)))) key =
                          (case map_of (cfg_map (new_config config)) key of
                             Some v \<Rightarrow> Some v
                           | None \<Rightarrow> map_of (cfg_map (hd (getConfigurations (model_obj generic)))) key)))"
proof -
  from close_geometry_resolved [OF assms(1,2)] obtain s1 where
    wf1: "list_all (\<lambda>model. model_id model < next_model_id s1) (models s1)"
    and m: "models s' = models s1"
    and res: "\<forall>p \<in> set (pending s). resolved conv s1 s' p"
    by blast
  from res assms(3) have "resolved conv s1 s' (type, config, d)" by blast
  then obtain generic mi where
    g: "getModel type s1 = Inr generic" and dl: "d < length (detector_heap s')"
    and at: "det_model (detector_heap s' ! d) = Some mi"
    and kind: "if extra_keys config = [] then mi = generic
               else next_model_id s1 \<le> model_id mi \<and> model_id mi < next_model_id s'
                    \<and> DetectorModel_ctor conv type (new_config config # getConfigurations (model_obj generic))
                        = Inr (model_obj mi)"
    unfolding resolved_triple by blast
  have g': "getModel type s' = Inr generic"
    using g getModel_cong [OF m] by simp
  have mo: "model_of s' d = Some mi"
    using dl at by (simp add: model_of_def deref_def)
  show ?thesis
  proof (cases "extra_keys config = []")
    case True
    with kind g' mo show ?thesis by auto
  next
    case False
    with kind have low: "next_model_id s1 \<le> model_id mi"
      and ctor: "DetectorModel_ctor conv type (new_config config # getConfigurations (model_obj generic))
                        = Inr (model_obj mi)"
      by simp_all
    have fresh: "list_all (\<lambda>model. model_id model \<noteq> model_id mi) (models s')"
      using wf1 low by (auto simp: m list_all_iff)
    have "generic \<in> set (models s')"
      using g' by (rule getModel_in_models)
    with fresh have ne: "model_id mi \<noteq> model_id generic"
      by (auto simp: list_all_iff)
    have rd: "reader (model_obj mi) = new_config config # getConfigurations (model_obj generic)"
      using DetectorModel_ctor_keeps [OF ctor] by simp
    from assms(2,3) have "distinct (map fst (cfg_map config))"
      by (auto simp: wf_state_def list_all_iff)
    then have ov: "\<forall>key. map_of (cfg_map (new_config config)) key =
                          (if key \<in> internal_keys then None else map_of (cfg_map config) key)"
      by (simp add: new_config_map_of)
    have pr: "\<forall>key. map_of (cfg_map (getHeaderConfiguration (reader (model_obj mi)))) key =
                          (case map_of (cfg_map (new_config config)) key of
                             Some v \<Rightarrow> Some v
                           | None \<Rightarrow> map_of (cfg_map (hd (getConfigurations (model_obj generic)))) key)"
      unfolding rd by (simp add: specialized_header)
    show ?thesis
      using False g' mo ne fresh ctor rd ov pr by auto
  qed
qed

theorem close_geometry_specializes_witness:
  "close_geometry example_conv example_files example_state = (Inr (), example_closed)
   \<and> wf_state example_state
   \<and> (''X'', example_config ''d1'' [(''sensor_thickness'', ''0.5'')], 1) \<in> set (pending example_state)
   \<and> extra_keys (example_config ''d1'' [(''sensor_thickness'', ''0.5'')]) \<noteq> []
   \<and> (\<exists>generic mi.
         getModel ''X'' example_closed = Inr generic \<and> model_of example_closed 1 = Some mi
         \<and> model_id mi \<noteq> model_id generic
         \<and> reader (model_obj mi)
             = new_config (example_config ''d1'' [(''sensor_thickness'', ''0.5'')])
               # getConfigurations (model_obj generic)
         \<and> sensor_thickness (model_obj mi) = 1 / 2
         \<and> number_of_pixels (model_obj mi) = number_of_pixels (model_obj generic))
   \<and> (''X'', example_config ''d0'' [], 0) \<in> set (pending example_state)
   \<and> extra_keys (example_config ''d0'' []) = []
   \<and> (\<exists>generic. getModel ''X'' example_closed = Inr generic \<and> model_of example_closed 0 = Some generic
         \<and> sensor_thickness (model_obj generic) = 1 / 4)"
proof -
  have m1: "(''X'', example_config ''d1'' [(''sensor_thickness'', ''0.5'')], 1) \<in> set (pending example_state)"
    and m0: "(''X'', example_config ''d0'' [], 0) \<in> set (pending example_state)"
    by (simp_all add: example_pending)
  from close_geometry_specializes [OF example_close_eq example_wf m0]
  obtain generic where g: "getModel ''X'' example_closed = Inr generic"
    and mo0: "model_of example_closed 0 = Some generic"
    by (auto simp: example_extra_keys)
  from close_geometry_specializes [OF example_close_eq example_wf m1]
  obtain generic' mi where g': "getModel ''X'' example_closed = Inr generic'"
    and mo1: "model_of example_closed 1 = Some mi"
    and ne: "model_id mi \<noteq> model_id generic'"
    and rd: "reader (model_obj mi)
             = new_config (example_config ''d1'' [(''sensor_thickness'', ''0.5'')])
               # getConfigurations (model_obj generic')"
    by (auto simp: example_extra_keys)
  have same: "generic' = generic" using g g' by simp
  have t0: "sensor_thickness (model_obj generic) = 1 / 4"
    using example_thickness(1) unfolding mo0 by simp
  have t1: "sensor_thickness (model_obj mi) = 1 / 2"
    using example_thickness(2) unfolding mo1 by simp
  have np: "number_of_pixels (model_obj mi) = number_of_pixels (model_obj generic)"
    using example_thickness(3) unfolding mo0 mo1 by simp
  have 1: "\<exists>generic mi.
         getModel ''X'' example_closed = Inr generic \<and> model_of example_closed 1 = Some mi
         \<and> model_id mi \<noteq> model_id generic
         \<and> reader (model_obj mi)
             = new_config (example_config ''d1'' [(''sensor_thickness'', ''0.5'')])
               # getConfigurations (model_obj generic)
         \<and> sensor_thickness (model_obj mi) = 1 / 2
         \<and> number_of_pixels (model_obj mi) = number_of_pixels (model_obj generic)"
    using g mo1 ne rd t1 np unfolding same by blast
  have 0: "\<exists>generic. getModel ''X'' example_closed = Inr generic \<and> model_of example_closed 0 = Some generic
         \<and> sensor_thickness (model_obj generic) = 1 / 4"
    using g mo0 t0 by blast
  show ?thesis
    using example_close_eq example_wf m1 m0 1 0 by (simp add: example_extra_keys)
qed

text \<open>
  C5, as stated, fails: the detectors \<open>d1\<close> and \<open>d2\<close> request the same type with the
  same override, the sensor thickness 0.5, and the closing gives them two instances.
\<close>

theorem identical_overrides_counterexample:
  "close_geometry example_conv example_files example_state = (Inr (), example_closed)
   \<and> (''X'', example_config ''d1'' [(''sensor_thickness'', ''0.5'')], 1) \<in> set (pending example_state)
   \<and> (''X'', example_config ''d2'' [(''sensor_thickness'', ''0.5'')], 2) \<in> set (pending example_state)
   \<and> cfg_map (new_config (example_config ''d1'' [(''sensor_thickness'', ''0.5'')]))
       = cfg_map (new_config (example_config ''d2'' [(''sensor_thickness'', ''0.5'')]))
   \<and> cfg_map (new_config (example_config ''d1'' [(''sensor_thickness'', ''0.5'')]))
       = [(''sensor_thickness'', ''0.5'')]
   \<and> map_option model_id (model_of example_closed 1) = Some 1
   \<and> map_option model_id (model_of example_closed 2) = Some 2
   \<and> model_of example_closed 1 \<noteq> model_of example_closed 2"
proof -
  have n: "cfg_map (new_config (example_config name [(''sensor_thickness'', ''0.5'')]))
       = [(''sensor_thickness'', ''0.5'')]" for name
    by (simp add: new_config_def getAll_def example_config_def setText_def Configuration_ctor_def)
  have "model_of example_closed 1 \<noteq> model_of example_closed 2"
    using example_ids by auto
  then show ?thesis
    using example_close_eq example_ids by (simp add: example_pending n)
qed

text \<open>
  C5, amended. After the closing, two pending detectors that requested the same type
  and have no override both hold the generic model of that type, the same instance. A
  pending detector with an override holds an instance that no other pending detector
  holds, whatever the overrides of the other are.
\<close>

theorem close_geometry_sharing:
  assumes "close_geometry conv files s = (Inr (), s')"
    and "wf_state s"
    and "(type1, config1, d1) \<in> set (pending s)"
    and "(type2, config2, d2) \<in> set (pending s)"
    and "d1 \<noteq> d2"
  shows "(type1 = type2 \<and> extra_keys config1 = [] \<and> extra_keys config2 = []
            \<longrightarrow> model_of s' d1 = model_of s' d2
                \<and> (\<exists>generic. getModel type1 s' = Inr generic \<and> model_of s' d1 = Some generic))
         \<and> (extra_keys config1 \<noteq> []
            \<longrightarrow> model_of s' d1 \<noteq> None
                \<and> map_option model_id (model_of s' d1) \<noteq> map_option model_id (model_of s' d2))"
proof -
  from close_geometry_resolved [OF assms(1,2)] obtain s1 where
    wf1: "list_all (\<lambda>model. model_id model < next_model_id s1) (models s1)"
    and m: "models s' = models s1"
    and res: "\<forall>p \<in> set (pending s). resolved conv s1 s' p"
    and inj: "\<forall>p \<in> set (pending s). \<forall>q \<in> set (pending s).
                snd (snd p) \<noteq> snd (snd q) \<and> extra_keys (fst (snd p)) \<noteq> []
                \<and> extra_keys (fst (snd q)) \<noteq> []
                \<longrightarrow> assigned_id s' p \<noteq> assigned_id s' q"
    by blast
  from res assms(3) have "resolved conv s1 s' (type1, config1, d1)" by blast
  from resolved_model_of [OF this] obtain g1 m1 where
    g1: "getModel type1 s1 = Inr g1" and mo1: "model_of s' d1 = Some m1"
    and a1: "assigned_id s' (type1, config1, d1) = Some (model_id m1)"
    and k1: "if extra_keys config1 = [] then m1 = g1 else next_model_id s1 \<le> model_id m1"
    by blast
  from res assms(4) have "resolved conv s1 s' (type2, config2, d2)" by blast
  from resolved_model_of [OF this] obtain g2 m2 where
    g2: "getModel type2 s1 = Inr g2" and mo2: "model_of s' d2 = Some m2"
    and a2: "assigned_id s' (type2, config2, d2) = Some (model_id m2)"
    and k2: "if extra_keys config2 = [] then m2 = g2 else next_model_id s1 \<le> model_id m2"
    by blast
  have shared: "model_of s' d1 = model_of s' d2
      \<and> (\<exists>generic. getModel type1 s' = Inr generic \<and> model_of s' d1 = Some generic)"
    if "type1 = type2" "extra_keys config1 = []" "extra_keys config2 = []"
    using that g1 g2 mo1 mo2 k1 k2 getModel_cong [OF m, of type1] by simp
  have priv: "model_id m1 \<noteq> model_id m2" if e1: "extra_keys config1 \<noteq> []"
  proof (cases "extra_keys config2 = []")
    case True
    with k2 have "m2 = g2" by simp
    then have "m2 \<in> set (models s1)"
      using g2 getModel_in_models by blast
    then have "model_id m2 < next_model_id s1"
      using wf1 by (simp add: list_all_iff)
    moreover have "next_model_id s1 \<le> model_id m1"
      using k1 e1 by simp
    ultimately show ?thesis by simp
  next
    case False
    have "assigned_id s' (type1, config1, d1) \<noteq> assigned_id s' (type2, config2, d2)"
      using inj assms(3,4,5) e1 False by fastforce
    then show ?thesis by (simp add: a1 a2)
  qed
  show ?thesis
    using shared priv mo1 mo2 by auto
qed

theorem close_geometry_sharing_witness:
  "close_geometry example_conv example_files example_state = (Inr (), example_closed)
   \<and> wf_state example_state
   \<and> (''X'', example_config ''d1'' [(''sensor_thickness'', ''0.5'')], 1) \<in> set (pending example_state)
   \<and> (''X'', example_config ''d2'' [(''sensor_thickness'', ''0.5'')], 2) \<in> set (pending example_state)
   \<and> (1::nat) \<noteq> 2
   \<and> extra_keys (example_config ''d1'' [(''sensor_thickness'', ''0.5'')]) \<noteq> []
   \<and> model_of example_closed 1 \<noteq> None
   \<and> map_option model_id (model_of example_closed 1) \<noteq> map_option model_id (model_of example_closed 2)"
proof -
  have m1: "(''X'', example_config ''d1'' [(''sensor_thickness'', ''0.5'')], 1) \<in> set (pending example_state)"
    and m2: "(''X'', example_config ''d2'' [(''sensor_thickness'', ''0.5'')], 2) \<in> set (pending example_state)"
    by (simp_all add: example_pending)
  have d: "(1::nat) \<noteq> 2" by simp
  from close_geometry_sharing [OF example_close_eq example_wf m1 m2 d]
  have "model_of example_closed 1 \<noteq> None
     \<and> map_option model_id (model_of example_closed 1) \<noteq> map_option model_id (model_of example_closed 2)"
    by (simp add: example_extra_keys)
  then show ?thesis
    using example_close_eq example_wf m1 m2 by (simp add: example_extra_keys)
qed

end
